theory Spec2Isabelle
  imports Complex_Main "HOL-Library.Stream"
begin

section \<open>Common model of the unit generators\<close>

text \<open>
  The generators of \<^verbatim>\<open>trigmodule.c\<close> and \<^verbatim>\<open>hilbertmodule.c\<close> are embedded as
  functions on records. C \<^verbatim>\<open>float\<close> and \<^verbatim>\<open>double\<close> values are modelled by
  \<^typ>\<open>real\<close>, and the arithmetic on them is exact, except where a floating value
  decides an integer (a number of samples, an index) or is the conversion of an integer:
  there the rounding to the \<^verbatim>\<open>float\<close> format is applied, with \<open>c_float\<close>. C
  \<^verbatim>\<open>int\<close> and \<^verbatim>\<open>long\<close> values are modelled by \<^typ>\<open>int\<close>, with the
  wrap-around written out where a counter can leave the machine range. A buffer is a
  list, written in place with
  \<open>xs[i := v]\<close>. The block of an input stream (\<^verbatim>\<open>Stream_getData\<close>) is an argument
  of the function that reads it.
\<close>

text \<open>The C loop \<^verbatim>\<open>for (i = a; i < n; i++) body\<close>.\<close>

function for_loop :: "nat \<Rightarrow> nat \<Rightarrow> (nat \<Rightarrow> 's \<Rightarrow> 's) \<Rightarrow> 's \<Rightarrow> 's" where
  "for_loop i n body s = (if i < n then for_loop (Suc i) n body (body i s) else s)"
  by pat_completeness auto
termination
  by (relation "measure (\<lambda>(i, n, body, s). n - i)") auto

declare for_loop.simps [simp del]

text \<open>
  The ways a function can end other than by returning: the use of a null pointer, an
  integer division by zero, and the read of an array outside of its bounds (with the
  index).
\<close>

datatype fault = NullPointer | DivisionByZero | OutOfBounds int

text \<open>The same loop for a body that can end in a fault, which ends the loop.\<close>

function for_loop_e :: "nat \<Rightarrow> nat \<Rightarrow> (nat \<Rightarrow> 's \<Rightarrow> fault + 's) \<Rightarrow> 's \<Rightarrow> fault + 's" where
  "for_loop_e i n body s =
     (if i < n
      then (case body i s of Inl e \<Rightarrow> Inl e | Inr s' \<Rightarrow> for_loop_e (Suc i) n body s')
      else Inr s)"
  by pat_completeness auto
termination
  by (relation "measure (\<lambda>(i, n, body, s). n - i)") auto

declare for_loop_e.simps [simp del]

text \<open>
  The fields of \<^verbatim>\<open>pyo_audio_HEAD\<close> that the compute functions use: the block
  length, the sampling rate and the output buffer of \<^verbatim>\<open>bufsize\<close> samples.
\<close>

record pyo_audio_HEAD =
  bufsize :: int
  sr :: real
  data :: "real list"

text \<open>
  The Python values a setter can receive: a number, an audio object that answers
  \<^verbatim>\<open>_getStream\<close> with its stream (named by a handle), a list of numbers, and any
  other object.
\<close>

datatype PyObject =
    PyFloat real
  | PyoObject nat
  | PyList "real list"
  | PyOther

text \<open>\<^verbatim>\<open>PyFloat_AS_DOUBLE\<close> reads the value of a float object and checks nothing.\<close>

fun PyFloat_AS_DOUBLE :: "PyObject \<Rightarrow> real" where
  "PyFloat_AS_DOUBLE (PyFloat r) = r"
| "PyFloat_AS_DOUBLE _ = undefined"

fun PyNumber_Check :: "PyObject \<Rightarrow> int" where
  "PyNumber_Check (PyFloat r) = 1"
| "PyNumber_Check _ = 0"

text \<open>
  The process-wide generator behind \<^verbatim>\<open>rand()\<close> is a stream of the non-negative
  integers it will return; a call takes the head.
\<close>

type_synonym rand_state = "nat stream"

definition rand :: "rand_state \<Rightarrow> int \<times> rand_state" where
  "rand g = (int (shd g), stl g)"

text \<open>The cast \<^verbatim>\<open>(int)x\<close> of a floating value truncates towards zero.\<close>

definition c_int :: "real \<Rightarrow> int" where
  "c_int x = (if 0 \<le> x then \<lfloor>x\<rfloor> else \<lceil>x\<rceil>)"

text \<open>
  The \<^verbatim>\<open>float\<close> format: 24 significant bits, round to nearest, ties to the even
  significand. \<open>float_exp k x\<close> is the binary exponent of \<open>x\<close>, the \<open>e\<close> with
  \<open>2^e \<le> \<bar>x\<bar> < 2^(e+1)\<close>, found in at most \<open>k\<close> halvings or doublings;
  \<open>c_float x\<close> is the \<^verbatim>\<open>float\<close> nearest to \<open>x\<close>, for \<open>\<bar>x\<bar>\<close> below \<open>2^128\<close>
  (exponents under -126 are the subnormal range, where the spacing stays
  \<open>2^-149\<close>). It is the result of a conversion to \<^verbatim>\<open>float\<close>, \<open>c_float x\<close>, and
  of an operation on two floats, \<open>c_float (x * y)\<close>.
\<close>

primrec float_exp :: "nat \<Rightarrow> real \<Rightarrow> int" where
  "float_exp 0 x = 0"
| "float_exp (Suc k) x =
     (if 2 \<le> \<bar>x\<bar> then float_exp k (x / 2) + 1
      else if \<bar>x\<bar> < 1 then float_exp k (x * 2) - 1
      else 0)"

definition round_even :: "real \<Rightarrow> int" where
  "round_even y =
     (let f = \<lfloor>y\<rfloor> in
      if y - real_of_int f < 1 / 2 then f
      else if 1 / 2 < y - real_of_int f then f + 1
      else if even f then f else f + 1)"

definition c_float :: "real \<Rightarrow> real" where
  "c_float x =
     (if x = 0 then 0
      else let e = max (float_exp 300 x) (- 126) - 23
           in real_of_int (round_even (x / 2 powi e)) * 2 powi e)"

text \<open>
  The product \<^verbatim>\<open>x * self->sr\<close> of a \<^verbatim>\<open>float\<close> and the sampling rate, as the
  operand of a cast. The header that declares \<^verbatim>\<open>sr\<close> is not among the sources, and C
  leaves the format in which a product is evaluated to the compiler. Where \<^verbatim>\<open>sr\<close> is
  a \<^verbatim>\<open>float\<close> and products of floats are evaluated as floats, the product is rounded
  to a \<^verbatim>\<open>float\<close>; where \<^verbatim>\<open>sr\<close> is a \<^verbatim>\<open>double\<close>, or products are evaluated
  in a wider format, the product of a float and a sampling rate is not rounded.
  \<open>wide\<close> tells which of the two it is.
\<close>

definition float_mul :: "bool \<Rightarrow> real \<Rightarrow> real \<Rightarrow> real" where
  "float_mul wide x y = (if wide then x * y else c_float (x * y))"

text \<open>
  The cast \<^verbatim>\<open>(int)x\<close> of a \<^verbatim>\<open>float\<close> to a 32-bit \<^verbatim>\<open>int\<close>: the truncation
  towards zero when it is in the range of \<^verbatim>\<open>int\<close>. Outside of it C leaves the
  result undefined; the conversion instruction of x86-64 gives \<open>-2^31\<close>, which is
  the value taken here.
\<close>

definition float_to_int :: "real \<Rightarrow> int" where
  "float_to_int x =
     (let t = (if 0 \<le> x then \<lfloor>x\<rfloor> else \<lceil>x\<rceil>)
      in if - 2147483648 \<le> t \<and> t \<le> 2147483647 then t else - 2147483648)"

text \<open>A 64-bit \<^verbatim>\<open>long\<close> after an addition: the value wrapped into its range.\<close>

definition c_long :: "int \<Rightarrow> int" where
  "c_long x = (x + 9223372036854775808) mod 18446744073709551616 - 9223372036854775808"


section \<open>Thresh\<close>

record Thresh = pyo_audio_HEAD +
  threshold :: PyObject
  dir :: int
  ready :: int
  modebuffer :: "int list"

definition Thresh_generates_i :: "real list \<Rightarrow> Thresh \<Rightarrow> Thresh" where
  "Thresh_generates_i inp s =
    (let thresh = PyFloat_AS_DOUBLE (threshold s) in
     if Thresh.dir s = 0 then
       for_loop 0 (nat (bufsize s)) (\<lambda>i s.
         let s = s\<lparr>data := (data s)[i := 0]\<rparr> in
         if inp ! i > thresh \<and> ready s = 1
         then s\<lparr>data := (data s)[i := 1], ready := 0\<rparr>
         else if inp ! i \<le> thresh \<and> ready s = 0
         then s\<lparr>ready := 1\<rparr>
         else s) s
     else if Thresh.dir s = 1 then
       for_loop 0 (nat (bufsize s)) (\<lambda>i s.
         let s = s\<lparr>data := (data s)[i := 0]\<rparr> in
         if inp ! i < thresh \<and> ready s = 1
         then s\<lparr>data := (data s)[i := 1], ready := 0\<rparr>
         else if inp ! i \<ge> thresh \<and> ready s = 0
         then s\<lparr>ready := 1\<rparr>
         else s) s
     else if Thresh.dir s = 2 then
       for_loop 0 (nat (bufsize s)) (\<lambda>i s.
         let s = s\<lparr>data := (data s)[i := 0]\<rparr> in
         if inp ! i > thresh \<and> ready s = 1
         then s\<lparr>data := (data s)[i := 1], ready := 0\<rparr>
         else if inp ! i \<le> thresh \<and> ready s = 0
         then s\<lparr>data := (data s)[i := 1], ready := 1\<rparr>
         else s) s
     else s)"

text \<open>
  The streaming-threshold variant. In its third loop the assignment
  \<^verbatim>\<open>self->ready = 1\<close> stands after the \<^verbatim>\<open>if\<close>/\<^verbatim>\<open>else if\<close> statement, outside
  of it, and so runs on every sample.
\<close>

definition Thresh_generates_a :: "real list \<Rightarrow> real list \<Rightarrow> Thresh \<Rightarrow> Thresh" where
  "Thresh_generates_a inp thresh s =
    (if Thresh.dir s = 0 then
       for_loop 0 (nat (bufsize s)) (\<lambda>i s.
         let s = s\<lparr>data := (data s)[i := 0]\<rparr> in
         if inp ! i > thresh ! i \<and> ready s = 1
         then s\<lparr>data := (data s)[i := 1], ready := 0\<rparr>
         else if inp ! i \<le> thresh ! i \<and> ready s = 0
         then s\<lparr>ready := 1\<rparr>
         else s) s
     else if Thresh.dir s = 1 then
       for_loop 0 (nat (bufsize s)) (\<lambda>i s.
         let s = s\<lparr>data := (data s)[i := 0]\<rparr> in
         if inp ! i < thresh ! i \<and> ready s = 1
         then s\<lparr>data := (data s)[i := 1], ready := 0\<rparr>
         else if inp ! i \<ge> thresh ! i \<and> ready s = 0
         then s\<lparr>ready := 1\<rparr>
         else s) s
     else if Thresh.dir s = 2 then
       for_loop 0 (nat (bufsize s)) (\<lambda>i s.
         let s = s\<lparr>data := (data s)[i := 0]\<rparr>;
             s = (if inp ! i > thresh ! i \<and> ready s = 1
                  then s\<lparr>data := (data s)[i := 1], ready := 0\<rparr>
                  else if inp ! i \<le> thresh ! i \<and> ready s = 0
                  then s\<lparr>data := (data s)[i := 1]\<rparr>
                  else s)
         in s\<lparr>ready := 1\<rparr>) s
     else s)"

text \<open>The object as \<^verbatim>\<open>Thresh_new\<close> leaves it, with a block of three samples.\<close>

definition Thresh_3 :: "int \<Rightarrow> Thresh" where
  "Thresh_3 d = \<lparr>bufsize = 3, sr = 44100, data = [0, 0, 0], threshold = PyFloat 0,
     Thresh.dir = d, ready = 1, Thresh.modebuffer = [0]\<rparr>"


section \<open>HilbertMain\<close>

record HilbertMain = pyo_audio_HEAD +
  coefs :: "real list"
  x1 :: "real list"
  y1 :: "real list"
  buffer_streams :: "real list"

text \<open>The local variables of \<^verbatim>\<open>HilbertMain_filters\<close>.\<close>

record filters_locals =
  xn1 :: real
  xn2 :: real
  yn1 :: real
  yn2 :: real

text \<open>
  One iteration of the outer loop: the first inner loop runs sections 0 to 5 on
  \<^verbatim>\<open>xn1\<close>, the second runs sections 6 to 11 on \<^verbatim>\<open>xn2\<close>. The second loop
  stores \<^verbatim>\<open>xn1\<close> and \<^verbatim>\<open>yn1\<close> in the memories of its sections, as the source
  does.
\<close>

definition HilbertMain_filters_sample ::
  "real list \<Rightarrow> nat \<Rightarrow> HilbertMain \<times> filters_locals \<Rightarrow> HilbertMain \<times> filters_locals" where
  "HilbertMain_filters_sample inp i = (\<lambda>(s, l).
     let l = l\<lparr>xn1 := inp ! i\<rparr>;
         (s, l) = for_loop 0 6 (\<lambda>j (s, l).
            let l = l\<lparr>yn1 := coefs s ! j * (xn1 l - y1 s ! j) + HilbertMain.x1 s ! j\<rparr>;
                s = s\<lparr>HilbertMain.x1 := (HilbertMain.x1 s)[j := xn1 l]\<rparr>;
                s = s\<lparr>y1 := (y1 s)[j := yn1 l]\<rparr>
            in (s, l\<lparr>xn1 := yn1 l\<rparr>)) (s, l);
         l = l\<lparr>xn2 := inp ! i\<rparr>;
         (s, l) = for_loop 6 12 (\<lambda>j (s, l).
            let l = l\<lparr>yn2 := coefs s ! j * (xn2 l - y1 s ! j) + HilbertMain.x1 s ! j\<rparr>;
                s = s\<lparr>HilbertMain.x1 := (HilbertMain.x1 s)[j := xn1 l]\<rparr>;
                s = s\<lparr>y1 := (y1 s)[j := yn1 l]\<rparr>
            in (s, l\<lparr>xn2 := yn2 l\<rparr>)) (s, l);
         s = s\<lparr>buffer_streams := (buffer_streams s)[i := yn1 l]\<rparr>;
         s = s\<lparr>buffer_streams := (buffer_streams s)[i + nat (bufsize s) := yn2 l]\<rparr>
     in (s, l))"

text \<open>
  The four locals are declared without a value; every one is assigned before it is
  read, and the model starts them at 0.
\<close>

definition HilbertMain_filters :: "real list \<Rightarrow> HilbertMain \<Rightarrow> HilbertMain" where
  "HilbertMain_filters inp s =
     fst (for_loop 0 (nat (bufsize s)) (HilbertMain_filters_sample inp)
            (s, \<lparr>xn1 = 0, xn2 = 0, yn1 = 0, yn2 = 0\<rparr>))"

text \<open>
  The object after \<^verbatim>\<open>HilbertMain_new\<close> and \<^verbatim>\<open>HilbertMain_init\<close> at 44100 Hz with
  a block of one sample: memories at 0, and the twelve coefficients that
  \<^verbatim>\<open>HilbertMain_compute_variables\<close> gives at that rate, to seven decimals.
\<close>

definition HilbertMain_44100 :: HilbertMain where
  "HilbertMain_44100 = \<lparr>bufsize = 1, sr = 44100, data = [0],
     coefs = [-0.9992290, -0.9941588, -0.9764363, -0.9087119, -0.6779357, -0.0792101,
              -0.9973270, -0.9881727, -0.9533648, -0.8251960, -0.4390510, 0.4949565],
     HilbertMain.x1 = [0, 0, 0, 0, 0, 0, 0, 0, 0, 0, 0, 0],
     y1 = [0, 0, 0, 0, 0, 0, 0, 0, 0, 0, 0, 0], buffer_streams = [0, 0]\<rparr>"


section \<open>Counter\<close>

text \<open>
  The fields \<^verbatim>\<open>min\<close>, \<^verbatim>\<open>max\<close> and \<^verbatim>\<open>value\<close> are \<open>min_v\<close>, \<open>max_v\<close> and
  \<open>value\<close> here. \<^verbatim>\<open>tmp\<close>, \<^verbatim>\<open>min\<close> and \<^verbatim>\<open>max\<close> are of type \<^verbatim>\<open>long\<close>,
  and \<^verbatim>\<open>value\<close> is a \<^verbatim>\<open>float\<close>: the assignment \<^verbatim>\<open>value = (float)tmp\<close> rounds.
\<close>

record Counter = pyo_audio_HEAD +
  tmp :: int
  min_v :: int
  max_v :: int
  dir :: int
  direction :: int
  "value" :: real
  modebuffer :: "int list"

text \<open>The body of \<^verbatim>\<open>if (in[i] == 1)\<close> in \<^verbatim>\<open>Counter_generates\<close>.\<close>

definition Counter_trig :: "Counter \<Rightarrow> Counter" where
  "Counter_trig s =
    (if Counter.dir s = 0 then
       let s = s\<lparr>Counter.value := c_float (real_of_int (tmp s))\<rparr>;
           s = s\<lparr>tmp := c_long (tmp s + 1)\<rparr>
       in if tmp s > Counter.max_v s then s\<lparr>tmp := Counter.min_v s\<rparr> else s
     else if Counter.dir s = 1 then
       let s = s\<lparr>Counter.value := c_float (real_of_int (tmp s))\<rparr>;
           s = s\<lparr>tmp := c_long (tmp s - 1)\<rparr>
       in if tmp s < Counter.min_v s then s\<lparr>tmp := Counter.max_v s\<rparr> else s
     else if Counter.dir s = 2 then
       let s = s\<lparr>Counter.value := c_float (real_of_int (tmp s))\<rparr>;
           s = s\<lparr>tmp := c_long (tmp s + direction s)\<rparr>
       in if tmp s \<ge> Counter.max_v s
          then s\<lparr>direction := - 1, tmp := c_long (tmp s - 1)\<rparr>
          else if tmp s \<le> Counter.min_v s
          then s\<lparr>direction := 1, tmp := c_long (tmp s + 1)\<rparr>
          else s
     else s)"

definition Counter_generates :: "real list \<Rightarrow> Counter \<Rightarrow> Counter" where
  "Counter_generates inp s =
     for_loop 0 (nat (bufsize s)) (\<lambda>i s.
       let s = (if inp ! i = 1 then Counter_trig s else s)
       in s\<lparr>data := (data s)[i := Counter.value s]\<rparr>) s"

text \<open>
  The object after \<^verbatim>\<open>Counter_new\<close> and \<^verbatim>\<open>Counter_init\<close> with the given
  \<^verbatim>\<open>min\<close>, \<^verbatim>\<open>max\<close> and \<^verbatim>\<open>dir\<close>, for a block of \<open>n\<close> samples and an input
  that has no trigger in the block that \<^verbatim>\<open>Counter_init\<close> computes.
\<close>

definition Counter_init :: "nat \<Rightarrow> int \<Rightarrow> int \<Rightarrow> int \<Rightarrow> Counter" where
  "Counter_init n mn mx d = \<lparr>bufsize = int n, sr = 44100, data = replicate n 0,
     tmp = (if d = 0 \<or> d = 2 then mn else mx), Counter.min_v = mn, Counter.max_v = mx, dir = d,
     direction = 1, Counter.value = 0, Counter.modebuffer = [0, 0]\<rparr>"

text \<open>
  In ping-pong mode the counter \<^verbatim>\<open>tmp\<close> stays between the bounds and
  \<^verbatim>\<open>direction\<close> is 1 or -1. The bounds are integers that a \<^verbatim>\<open>float\<close> holds
  exactly when their magnitude is at most \<open>2^24\<close>.
\<close>

definition Counter_inv :: "Counter \<Rightarrow> bool" where
  "Counter_inv s \<longleftrightarrow>
     Counter.min_v s \<le> tmp s \<and> tmp s \<le> Counter.max_v s \<and> (direction s = 1 \<or> direction s = - 1)"

definition Counter_exact :: "Counter \<Rightarrow> bool" where
  "Counter_exact s \<longleftrightarrow> - 16777216 \<le> Counter.min_v s \<and> Counter.max_v s \<le> 16777216"


section \<open>TrigXnoise\<close>

record TrigXnoise = pyo_audio_HEAD +
  x1 :: PyObject
  x2 :: PyObject
  xx1 :: real
  xx2 :: real
  type_v :: int
  "value" :: real
  lastPoissonX1 :: real
  poisson_tab :: int
  poisson_buffer :: "real list"
  walkerValue :: real
  loop_buffer :: "real list"
  loopChoice :: int
  loopCountPlay :: int
  loopTime :: int
  loopCountRec :: int
  loopLen :: int
  loopStop :: int
  modebuffer :: "int list"

text \<open>
  The bounded-walk rule: the body of \<^verbatim>\<open>TrigXnoise_walker\<close> up to its
  \<^verbatim>\<open>return\<close>, which \<^verbatim>\<open>TrigXnoise_loopseg\<close> repeats word for word in its recording
  branch. The operands of \<^verbatim>\<open>%\<close> and \<^verbatim>\<open>/\<close> on integers are non-negative here
  (\<^verbatim>\<open>rand()\<close> is, and \<^verbatim>\<open>modulo\<close> is at least 2), where C agrees with \<open>mod\<close>
  and \<open>div\<close>.
\<close>

definition TrigXnoise_walk :: "TrigXnoise \<times> rand_state \<Rightarrow> TrigXnoise \<times> rand_state" where
  "TrigXnoise_walk = (\<lambda>(s, g).
     let s = (if xx2 s < 0.002 then s\<lparr>xx2 := 0.002\<rparr> else s);
         modulo = c_int (xx2 s * 1000);
         (r, g) = rand g;
         dir = r mod 2;
         (r, g) = rand g;
         s = (if dir = 0
              then s\<lparr>walkerValue :=
                     walkerValue s + real_of_int (r mod modulo - modulo div 2) * 0.001\<rparr>
              else s\<lparr>walkerValue :=
                     walkerValue s - real_of_int (r mod modulo - modulo div 2) * 0.001\<rparr>);
         s = (if walkerValue s > xx1 s then s\<lparr>walkerValue := xx1 s\<rparr> else s);
         s = (if walkerValue s < 0 then s\<lparr>walkerValue := 0\<rparr> else s)
     in (s, g))"


text \<open>\<^verbatim>\<open>TrigXnoise_loopseg\<close>; it returns \<^verbatim>\<open>walkerValue\<close>.\<close>

definition TrigXnoise_loopseg ::
  "TrigXnoise \<times> rand_state \<Rightarrow> real \<times> TrigXnoise \<times> rand_state" where
  "TrigXnoise_loopseg = (\<lambda>(s, g).
     if loopChoice s = 0 then
       let s = s\<lparr>loopTime := 0\<rparr>;
           s = s\<lparr>loopCountPlay := loopTime s\<rparr>;
           (s, g) = TrigXnoise_walk (s, g);
           s = s\<lparr>loop_buffer := (loop_buffer s)[nat (loopCountRec s) := walkerValue s],
                 loopCountRec := loopCountRec s + 1\<rparr>;
           (s, g) = (if loopCountRec s < loopLen s then (s\<lparr>loopChoice := 0\<rparr>, g)
                     else let (r, g) = rand g
                          in (s\<lparr>loopChoice := 1, loopStop := r mod 4 + 1\<rparr>, g))
       in (walkerValue s, s, g)
     else
       let s = s\<lparr>loopCountRec := 0\<rparr>;
           s = s\<lparr>walkerValue := loop_buffer s ! nat (loopCountPlay s),
                 loopCountPlay := loopCountPlay s + 1\<rparr>;
           s = (if loopCountPlay s < loopLen s then s\<lparr>loopChoice := 1\<rparr>
                else s\<lparr>loopCountPlay := 0, loopTime := loopTime s + 1\<rparr>);
           (s, g) = (if loopTime s = loopStop s
                     then let (r, g) = rand g
                          in (s\<lparr>loopChoice := 0, loopLen := r mod 10 + 3\<rparr>, g)
                     else (s, g))
       in (walkerValue s, s, g))"

text \<open>
  \<^verbatim>\<open>TrigXnoise_new\<close>, for a block length and a sampling rate that
  \<^verbatim>\<open>INIT_OBJECT_COMMON\<close> takes from the server; \<^verbatim>\<open>tp_alloc\<close> zeroes the fields
  that are not assigned.
\<close>

definition TrigXnoise_new :: "nat \<Rightarrow> real \<Rightarrow> rand_state \<Rightarrow> TrigXnoise \<times> rand_state" where
  "TrigXnoise_new n rate g =
     (let (r, g) = rand g
      in (\<lparr>bufsize = int n, sr = rate, data = replicate n 0,
           x1 = PyFloat 0.5, x2 = PyFloat 0.5, xx1 = 0.5, xx2 = 0.5, type_v = 0,
           TrigXnoise.value = 0, lastPoissonX1 = - 99, poisson_tab = 0,
           poisson_buffer = replicate 2000 0, walkerValue = 0.5,
           loop_buffer = replicate 15 0, loopChoice = 0, loopCountPlay = 0, loopTime = 0,
           loopCountRec = 0, loopLen = r mod 10 + 3, loopStop = 0,
           TrigXnoise.modebuffer = [0, 0, 0, 0]\<rparr>, g))"

text \<open>The values returned by \<open>n\<close> successive calls of \<^verbatim>\<open>TrigXnoise_loopseg\<close>.\<close>

fun TrigXnoise_loopseg_run ::
  "nat \<Rightarrow> TrigXnoise \<times> rand_state \<Rightarrow> real list \<times> TrigXnoise \<times> rand_state" where
  "TrigXnoise_loopseg_run 0 sg = ([], sg)"
| "TrigXnoise_loopseg_run (Suc n) sg =
     (let (v, sg) = TrigXnoise_loopseg sg;
          (vs, sg) = TrigXnoise_loopseg_run n sg
      in (v # vs, sg))"

text \<open>
  \<^verbatim>\<open>TrigXnoise_generate_ii\<close>, for the function \<open>f\<close> that \<^verbatim>\<open>type_func_ptr\<close> points
  to: it draws a value, and may change the object and end in a fault. There is no port
  time in this object and no ramp: the output is \<^verbatim>\<open>value\<close>.
\<close>

definition TrigXnoise_generate_ii_body ::
  "(TrigXnoise \<times> rand_state \<Rightarrow> fault + real \<times> TrigXnoise \<times> rand_state) \<Rightarrow> real list \<Rightarrow> nat \<Rightarrow>
     TrigXnoise \<times> rand_state \<Rightarrow> fault + TrigXnoise \<times> rand_state" where
  "TrigXnoise_generate_ii_body f inp i = (\<lambda>(s, g).
     if inp ! i = 1 then
       (case f (s, g) of
          Inl e \<Rightarrow> Inl e
        | Inr (v, s, g) \<Rightarrow>
            let s = s\<lparr>TrigXnoise.value := v\<rparr>
            in Inr (s\<lparr>data := (data s)[i := TrigXnoise.value s]\<rparr>, g))
     else Inr (s\<lparr>data := (data s)[i := TrigXnoise.value s]\<rparr>, g))"

definition TrigXnoise_generate_ii ::
  "(TrigXnoise \<times> rand_state \<Rightarrow> fault + real \<times> TrigXnoise \<times> rand_state) \<Rightarrow> real list \<Rightarrow>
     TrigXnoise \<times> rand_state \<Rightarrow> fault + TrigXnoise \<times> rand_state" where
  "TrigXnoise_generate_ii f inp = (\<lambda>(s, g).
     let s = s\<lparr>xx1 := PyFloat_AS_DOUBLE (TrigXnoise.x1 s)\<rparr>;
         s = s\<lparr>xx2 := PyFloat_AS_DOUBLE (TrigXnoise.x2 s)\<rparr>
     in for_loop_e 0 (nat (bufsize s)) (TrigXnoise_generate_ii_body f inp) (s, g))"



text \<open>
  The three other variants, in which \<^verbatim>\<open>x1\<close>, \<^verbatim>\<open>x2\<close> or both are read from the
  block of a stream on each trigger.
\<close>

definition TrigXnoise_generate_ai_body ::
  "(TrigXnoise \<times> rand_state \<Rightarrow> fault + real \<times> TrigXnoise \<times> rand_state) \<Rightarrow> real list \<Rightarrow>
     real list \<Rightarrow> nat \<Rightarrow> TrigXnoise \<times> rand_state \<Rightarrow> fault + TrigXnoise \<times> rand_state" where
  "TrigXnoise_generate_ai_body f inp x1_st i = (\<lambda>(s, g).
     if inp ! i = 1 then
       let s = s\<lparr>xx1 := x1_st ! i\<rparr> in
       (case f (s, g) of
          Inl e \<Rightarrow> Inl e
        | Inr (v, s, g) \<Rightarrow>
            let s = s\<lparr>TrigXnoise.value := v\<rparr>
            in Inr (s\<lparr>data := (data s)[i := TrigXnoise.value s]\<rparr>, g))
     else Inr (s\<lparr>data := (data s)[i := TrigXnoise.value s]\<rparr>, g))"

definition TrigXnoise_generate_ai_at ::
  "(TrigXnoise \<times> rand_state \<Rightarrow> fault + real \<times> TrigXnoise \<times> rand_state) \<Rightarrow> nat \<Rightarrow> real list \<Rightarrow>
     real list \<Rightarrow> TrigXnoise \<times> rand_state \<Rightarrow> fault + TrigXnoise \<times> rand_state" where
  "TrigXnoise_generate_ai_at f m inp x1_st = (\<lambda>(s, g).
     let s = s\<lparr>xx2 := PyFloat_AS_DOUBLE (TrigXnoise.x2 s)\<rparr>
     in for_loop_e 0 m (TrigXnoise_generate_ai_body f inp x1_st) (s, g))"

definition TrigXnoise_generate_ai ::
  "(TrigXnoise \<times> rand_state \<Rightarrow> fault + real \<times> TrigXnoise \<times> rand_state) \<Rightarrow> real list \<Rightarrow>
     real list \<Rightarrow> TrigXnoise \<times> rand_state \<Rightarrow> fault + TrigXnoise \<times> rand_state" where
  "TrigXnoise_generate_ai f inp x1_st = (\<lambda>(s, g).
     TrigXnoise_generate_ai_at f (nat (bufsize s)) inp x1_st (s, g))"

definition TrigXnoise_generate_ia_body ::
  "(TrigXnoise \<times> rand_state \<Rightarrow> fault + real \<times> TrigXnoise \<times> rand_state) \<Rightarrow> real list \<Rightarrow>
     real list \<Rightarrow> nat \<Rightarrow> TrigXnoise \<times> rand_state \<Rightarrow> fault + TrigXnoise \<times> rand_state" where
  "TrigXnoise_generate_ia_body f inp x2_st i = (\<lambda>(s, g).
     if inp ! i = 1 then
       let s = s\<lparr>xx2 := x2_st ! i\<rparr> in
       (case f (s, g) of
          Inl e \<Rightarrow> Inl e
        | Inr (v, s, g) \<Rightarrow>
            let s = s\<lparr>TrigXnoise.value := v\<rparr>
            in Inr (s\<lparr>data := (data s)[i := TrigXnoise.value s]\<rparr>, g))
     else Inr (s\<lparr>data := (data s)[i := TrigXnoise.value s]\<rparr>, g))"

definition TrigXnoise_generate_ia_at ::
  "(TrigXnoise \<times> rand_state \<Rightarrow> fault + real \<times> TrigXnoise \<times> rand_state) \<Rightarrow> nat \<Rightarrow> real list \<Rightarrow>
     real list \<Rightarrow> TrigXnoise \<times> rand_state \<Rightarrow> fault + TrigXnoise \<times> rand_state" where
  "TrigXnoise_generate_ia_at f m inp x2_st = (\<lambda>(s, g).
     let s = s\<lparr>xx1 := PyFloat_AS_DOUBLE (TrigXnoise.x1 s)\<rparr>
     in for_loop_e 0 m (TrigXnoise_generate_ia_body f inp x2_st) (s, g))"

definition TrigXnoise_generate_ia ::
  "(TrigXnoise \<times> rand_state \<Rightarrow> fault + real \<times> TrigXnoise \<times> rand_state) \<Rightarrow> real list \<Rightarrow>
     real list \<Rightarrow> TrigXnoise \<times> rand_state \<Rightarrow> fault + TrigXnoise \<times> rand_state" where
  "TrigXnoise_generate_ia f inp x2_st = (\<lambda>(s, g).
     TrigXnoise_generate_ia_at f (nat (bufsize s)) inp x2_st (s, g))"

definition TrigXnoise_generate_aa_body ::
  "(TrigXnoise \<times> rand_state \<Rightarrow> fault + real \<times> TrigXnoise \<times> rand_state) \<Rightarrow> real list \<Rightarrow>
     real list \<Rightarrow> real list \<Rightarrow> nat \<Rightarrow> TrigXnoise \<times> rand_state \<Rightarrow>
     fault + TrigXnoise \<times> rand_state" where
  "TrigXnoise_generate_aa_body f inp x1_st x2_st i = (\<lambda>(s, g).
     if inp ! i = 1 then
       let s = s\<lparr>xx1 := x1_st ! i\<rparr>;
           s = s\<lparr>xx2 := x2_st ! i\<rparr> in
       (case f (s, g) of
          Inl e \<Rightarrow> Inl e
        | Inr (v, s, g) \<Rightarrow>
            let s = s\<lparr>TrigXnoise.value := v\<rparr>
            in Inr (s\<lparr>data := (data s)[i := TrigXnoise.value s]\<rparr>, g))
     else Inr (s\<lparr>data := (data s)[i := TrigXnoise.value s]\<rparr>, g))"

definition TrigXnoise_generate_aa_at ::
  "(TrigXnoise \<times> rand_state \<Rightarrow> fault + real \<times> TrigXnoise \<times> rand_state) \<Rightarrow> nat \<Rightarrow> real list \<Rightarrow>
     real list \<Rightarrow> real list \<Rightarrow> TrigXnoise \<times> rand_state \<Rightarrow> fault + TrigXnoise \<times> rand_state" where
  "TrigXnoise_generate_aa_at f m inp x1_st x2_st = (\<lambda>(s, g).
     for_loop_e 0 m (TrigXnoise_generate_aa_body f inp x1_st x2_st) (s, g))"

definition TrigXnoise_generate_aa ::
  "(TrigXnoise \<times> rand_state \<Rightarrow> fault + real \<times> TrigXnoise \<times> rand_state) \<Rightarrow> real list \<Rightarrow>
     real list \<Rightarrow> real list \<Rightarrow> TrigXnoise \<times> rand_state \<Rightarrow> fault + TrigXnoise \<times> rand_state" where
  "TrigXnoise_generate_aa f inp x1_st x2_st = (\<lambda>(s, g).
     TrigXnoise_generate_aa_at f (nat (bufsize s)) inp x1_st x2_st (s, g))"

text \<open>
  \<^verbatim>\<open>powf\<close> of the C library, for the positive bases it is called with here.
\<close>

definition powf :: "real \<Rightarrow> real \<Rightarrow> real" where
  "powf x y = x powr y"

text \<open>
  \<^verbatim>\<open>TrigXnoise_poisson\<close>, in four parts: the body of the inner loop, which writes
  one slot of the table; the body of the outer loop, for the term \<open>i\<close> of the
  distribution; the block that rebuilds the table; the function. The table
  \<^verbatim>\<open>poisson_buffer\<close> has 2000 slots, and a write past them is a fault; so is
  \<^verbatim>\<open>rand() % self->poisson_tab\<close> when \<^verbatim>\<open>poisson_tab\<close> is 0.
\<close>

definition TrigXnoise_poisson_slot :: "nat \<Rightarrow> nat \<Rightarrow> TrigXnoise \<Rightarrow> fault + TrigXnoise" where
  "TrigXnoise_poisson_slot i j s =
     (if 0 \<le> poisson_tab s \<and> poisson_tab s < 2000
      then Inr (s\<lparr>poisson_buffer := (poisson_buffer s)[nat (poisson_tab s) := real i],
                 poisson_tab := poisson_tab s + 1\<rparr>)
      else Inl (OutOfBounds (poisson_tab s)))"

definition TrigXnoise_poisson_term :: "nat \<Rightarrow> TrigXnoise \<times> int \<Rightarrow> fault + TrigXnoise \<times> int" where
  "TrigXnoise_poisson_term i = (\<lambda>(s, factorial).
     let factorial = factorial * int i;
         tot = c_int (1000 * (powf 2.7182818 (- xx1 s) * powf (xx1 s) (real i) /
                              real_of_int factorial))
     in (case for_loop_e 0 (nat tot) (TrigXnoise_poisson_slot i) s of
           Inl e \<Rightarrow> Inl e
         | Inr s \<Rightarrow> Inr (s, factorial)))"

definition TrigXnoise_poisson_rebuild :: "TrigXnoise \<Rightarrow> fault + TrigXnoise" where
  "TrigXnoise_poisson_rebuild s =
     (let s = s\<lparr>lastPoissonX1 := xx1 s\<rparr>;
          s = s\<lparr>poisson_tab := 0\<rparr>;
          factorial = 1
      in (case for_loop_e 1 12 TrigXnoise_poisson_term (s, factorial) of
            Inl e \<Rightarrow> Inl e
          | Inr (s, factorial) \<Rightarrow> Inr s))"

definition TrigXnoise_poisson ::
  "TrigXnoise \<times> rand_state \<Rightarrow> fault + real \<times> TrigXnoise \<times> rand_state" where
  "TrigXnoise_poisson = (\<lambda>(s, g).
     let s = (if xx1 s < 0.1 then s\<lparr>xx1 := 0.1\<rparr> else s);
         s = (if xx2 s < 0.1 then s\<lparr>xx2 := 0.1\<rparr> else s);
         built = (if xx1 s \<noteq> lastPoissonX1 s then TrigXnoise_poisson_rebuild s else Inr s)
     in (case built of
           Inl e \<Rightarrow> Inl e
         | Inr s \<Rightarrow>
             let (rnd, g) = rand g in
             if poisson_tab s = 0 then Inl DivisionByZero
             else
               let val = poisson_buffer s ! nat (rnd mod poisson_tab s) / 12 * xx2 s
               in if val < 0 then Inr (0, s, g)
                  else if val > 1 then Inr (1, s, g)
                  else Inr (val, s, g)))"

text \<open>
  The assignments of \<^verbatim>\<open>TrigXnoise_setX1\<close> for a number, and a new object with a
  block of one sample whose parameter \<^verbatim>\<open>x1\<close> has been set to \<open>a\<close>.
\<close>

definition TrigXnoise_setX1_number :: "real \<Rightarrow> TrigXnoise \<Rightarrow> TrigXnoise" where
  "TrigXnoise_setX1_number a s =
     (let s = s\<lparr>TrigXnoise.x1 := PyFloat a\<rparr>
      in s\<lparr>TrigXnoise.modebuffer := (TrigXnoise.modebuffer s)[2 := 0]\<rparr>)"

definition TrigXnoise_x1 :: "real \<Rightarrow> TrigXnoise \<times> rand_state" where
  "TrigXnoise_x1 a =
     (case TrigXnoise_new 1 44100 (sconst 0) of (s, g) \<Rightarrow> (TrigXnoise_setX1_number a s, g))"

text \<open>
  The state at the start of a recording phase: the recording branch is selected, nothing
  is recorded yet, the length drawn for the loop is between 3 and 12, and the buffer has
  its 15 slots.
\<close>

definition TrigXnoise_loopseg_start :: "TrigXnoise \<Rightarrow> bool" where
  "TrigXnoise_loopseg_start s \<longleftrightarrow>
     loopChoice s = 0 \<and> loopCountRec s = 0 \<and> 3 \<le> loopLen s \<and> loopLen s \<le> 12 \<and>
     length (loop_buffer s) = 15"

text \<open>
  A run of \<^verbatim>\<open>rand()\<close> for the examples: 10 at construction (a loop of 3 samples),
  three steps of the walk, 1 for the number of repetitions (2), then 7 (a loop of 10).
\<close>

definition rand_example :: rand_state where
  "rand_example = 10 ## 0 ## 200 ## 0 ## 230 ## 0 ## 150 ## 1 ## 7 ## sconst 0"


section \<open>TrigRand and TrigChoice\<close>

text \<open>
  \<^verbatim>\<open>proc_func_ptr\<close> and \<^verbatim>\<open>muladd_func_ptr\<close> point to one of the
  \<^verbatim>\<open>_generate\<close> and \<^verbatim>\<open>_postprocessing_\<close> functions of the object, named here by
  their suffix; \<open>None\<close> is the null pointer that \<^verbatim>\<open>tp_alloc\<close> leaves.
\<close>

datatype proc_func = Generate | Generate_ii | Generate_ai | Generate_ia | Generate_aa

datatype muladd_func =
    Post_ii | Post_ai | Post_revai | Post_ia | Post_aa | Post_revaa
  | Post_ireva | Post_areva | Post_revareva

text \<open>
  \<^verbatim>\<open>TrigRand\<close> and \<^verbatim>\<open>TrigChoice\<close> declare the same six fields for the target,
  the output value and the ramp; the model declares them once, in a record that both
  objects extend. \<^verbatim>\<open>RAND_MAX\<close> is the value of the GNU C library.
\<close>

record port = pyo_audio_HEAD +
  "value" :: real
  currentValue :: real
  time :: real
  timeStep :: int
  stepVal :: real
  timeCount :: int
  modebuffer :: "int list"
  proc_func_ptr :: "proc_func option"
  muladd_func_ptr :: "muladd_func option"

record TrigRand = port +
  min_v :: PyObject
  max_v :: PyObject
  min_stream :: "nat option"
  max_stream :: "nat option"

record TrigChoice = port +
  chSize :: int
  choice :: "real list"

definition RAND_MAX :: int where
  "RAND_MAX = 2147483647"




definition TrigRand_generate_ai_body ::
  "real list \<Rightarrow> real list \<Rightarrow> real \<Rightarrow> nat \<Rightarrow> TrigRand \<times> rand_state \<Rightarrow> TrigRand \<times> rand_state" where
  "TrigRand_generate_ai_body inp mi ma i = (\<lambda>(s, g).
     let range' = ma - mi ! i;
         (s, g) =
            (if inp ! i = 1 then
               let s = s\<lparr>timeCount := 0\<rparr>;
                   (r, g) = rand g;
                   s = s\<lparr>port.value := range' * (real_of_int r / (real_of_int RAND_MAX + 1)) + mi ! i\<rparr>
               in if time s \<le> 0
                  then (s\<lparr>currentValue := port.value s\<rparr>, g)
                  else (s\<lparr>stepVal :=
                          (port.value s - currentValue s) / real_of_int (timeStep s)\<rparr>, g)
             else (s, g));
         s = (if timeCount s = timeStep s - 1
              then s\<lparr>currentValue := port.value s, timeCount := timeCount s + 1\<rparr>
              else if timeCount s < timeStep s
              then s\<lparr>currentValue := currentValue s + stepVal s,
                     timeCount := timeCount s + 1\<rparr>
              else s)
     in (s\<lparr>data := (data s)[i := currentValue s]\<rparr>, g))"

definition TrigRand_generate_ai_at ::
  "nat \<Rightarrow> real list \<Rightarrow> real list \<Rightarrow> TrigRand \<times> rand_state \<Rightarrow> TrigRand \<times> rand_state" where
  "TrigRand_generate_ai_at m inp mi = (\<lambda>(s, g).
     let ma = PyFloat_AS_DOUBLE (TrigRand.max_v s)
     in for_loop 0 m (TrigRand_generate_ai_body inp mi ma) (s, g))"

definition TrigRand_generate_ai ::
  "real list \<Rightarrow> real list \<Rightarrow> TrigRand \<times> rand_state \<Rightarrow> TrigRand \<times> rand_state" where
  "TrigRand_generate_ai inp mi = (\<lambda>(s, g).
     TrigRand_generate_ai_at (nat (bufsize s)) inp mi (s, g))"

definition TrigRand_generate_ia_body ::
  "real list \<Rightarrow> real \<Rightarrow> real list \<Rightarrow> nat \<Rightarrow> TrigRand \<times> rand_state \<Rightarrow> TrigRand \<times> rand_state" where
  "TrigRand_generate_ia_body inp mi ma i = (\<lambda>(s, g).
     let range' = ma ! i - mi;
         (s, g) =
            (if inp ! i = 1 then
               let s = s\<lparr>timeCount := 0\<rparr>;
                   (r, g) = rand g;
                   s = s\<lparr>port.value := range' * (real_of_int r / (real_of_int RAND_MAX + 1)) + mi\<rparr>
               in if time s \<le> 0
                  then (s\<lparr>currentValue := port.value s\<rparr>, g)
                  else (s\<lparr>stepVal :=
                          (port.value s - currentValue s) / real_of_int (timeStep s)\<rparr>, g)
             else (s, g));
         s = (if timeCount s = timeStep s - 1
              then s\<lparr>currentValue := port.value s, timeCount := timeCount s + 1\<rparr>
              else if timeCount s < timeStep s
              then s\<lparr>currentValue := currentValue s + stepVal s,
                     timeCount := timeCount s + 1\<rparr>
              else s)
     in (s\<lparr>data := (data s)[i := currentValue s]\<rparr>, g))"

definition TrigRand_generate_ia_at ::
  "nat \<Rightarrow> real list \<Rightarrow> real list \<Rightarrow> TrigRand \<times> rand_state \<Rightarrow> TrigRand \<times> rand_state" where
  "TrigRand_generate_ia_at m inp ma = (\<lambda>(s, g).
     let mi = PyFloat_AS_DOUBLE (TrigRand.min_v s)
     in for_loop 0 m (TrigRand_generate_ia_body inp mi ma) (s, g))"

definition TrigRand_generate_ia ::
  "real list \<Rightarrow> real list \<Rightarrow> TrigRand \<times> rand_state \<Rightarrow> TrigRand \<times> rand_state" where
  "TrigRand_generate_ia inp ma = (\<lambda>(s, g).
     TrigRand_generate_ia_at (nat (bufsize s)) inp ma (s, g))"

definition TrigRand_generate_aa_body ::
  "real list \<Rightarrow> real list \<Rightarrow> real list \<Rightarrow> nat \<Rightarrow> TrigRand \<times> rand_state \<Rightarrow> TrigRand \<times> rand_state" where
  "TrigRand_generate_aa_body inp mi ma i = (\<lambda>(s, g).
     let range' = ma ! i - mi ! i;
         (s, g) =
            (if inp ! i = 1 then
               let s = s\<lparr>timeCount := 0\<rparr>;
                   (r, g) = rand g;
                   s = s\<lparr>port.value := range' * (real_of_int r / (real_of_int RAND_MAX + 1)) + mi ! i\<rparr>
               in if time s \<le> 0
                  then (s\<lparr>currentValue := port.value s\<rparr>, g)
                  else (s\<lparr>stepVal :=
                          (port.value s - currentValue s) / real_of_int (timeStep s)\<rparr>, g)
             else (s, g));
         s = (if timeCount s = timeStep s - 1
              then s\<lparr>currentValue := port.value s, timeCount := timeCount s + 1\<rparr>
              else if timeCount s < timeStep s
              then s\<lparr>currentValue := currentValue s + stepVal s,
                     timeCount := timeCount s + 1\<rparr>
              else s)
     in (s\<lparr>data := (data s)[i := currentValue s]\<rparr>, g))"

definition TrigRand_generate_aa_at ::
  "nat \<Rightarrow> real list \<Rightarrow> real list \<Rightarrow> real list \<Rightarrow> TrigRand \<times> rand_state \<Rightarrow>
     TrigRand \<times> rand_state" where
  "TrigRand_generate_aa_at m inp mi ma = (\<lambda>(s, g).
     for_loop 0 m (TrigRand_generate_aa_body inp mi ma) (s, g))"

definition TrigRand_generate_aa ::
  "real list \<Rightarrow> real list \<Rightarrow> real list \<Rightarrow> TrigRand \<times> rand_state \<Rightarrow>
     TrigRand \<times> rand_state" where
  "TrigRand_generate_aa inp mi ma = (\<lambda>(s, g).
     TrigRand_generate_aa_at (nat (bufsize s)) inp mi ma (s, g))"




text \<open>
  The \<^verbatim>\<open>switch (muladdmode)\<close> that every \<^verbatim>\<open>_setProcMode\<close> ends with; a mode that
  is no case of the switch leaves the pointer as it is.
\<close>

definition muladd_switch :: "int \<Rightarrow> muladd_func option \<Rightarrow> muladd_func option" where
  "muladd_switch muladdmode p =
    (if muladdmode = 0 then Some Post_ii
     else if muladdmode = 1 then Some Post_ai
     else if muladdmode = 2 then Some Post_revai
     else if muladdmode = 10 then Some Post_ia
     else if muladdmode = 11 then Some Post_aa
     else if muladdmode = 12 then Some Post_revaa
     else if muladdmode = 20 then Some Post_ireva
     else if muladdmode = 21 then Some Post_areva
     else if muladdmode = 22 then Some Post_revareva
     else p)"

definition TrigRand_setProcMode :: "TrigRand \<Rightarrow> TrigRand" where
  "TrigRand_setProcMode s =
    (let procmode = port.modebuffer s ! 2 + port.modebuffer s ! 3 * 10;
         muladdmode = port.modebuffer s ! 0 + port.modebuffer s ! 1 * 10;
         s = (if procmode = 0 then s\<lparr>proc_func_ptr := Some Generate_ii\<rparr>
              else if procmode = 1 then s\<lparr>proc_func_ptr := Some Generate_ai\<rparr>
              else if procmode = 10 then s\<lparr>proc_func_ptr := Some Generate_ia\<rparr>
              else if procmode = 11 then s\<lparr>proc_func_ptr := Some Generate_aa\<rparr>
              else s)
     in s\<lparr>muladd_func_ptr := muladd_switch muladdmode (muladd_func_ptr s)\<rparr>)"

definition TrigChoice_setProcMode :: "TrigChoice \<Rightarrow> TrigChoice" where
  "TrigChoice_setProcMode s =
    (let muladdmode = port.modebuffer s ! 0 + port.modebuffer s ! 1 * 10;
         s = s\<lparr>proc_func_ptr := Some Generate\<rparr>
     in s\<lparr>muladd_func_ptr := muladd_switch muladdmode (muladd_func_ptr s)\<rparr>)"

text \<open>
  \<^verbatim>\<open>PyNumber_Float\<close> of a number, and the call of \<^verbatim>\<open>_getStream\<close> on an object:
  an audio object answers with its stream, on any other object the call fails and
  returns \<^verbatim>\<open>NULL\<close>.
\<close>

fun PyNumber_Float :: "PyObject \<Rightarrow> PyObject" where
  "PyNumber_Float (PyFloat r) = PyFloat r"
| "PyNumber_Float _ = undefined"

fun getStream :: "PyObject \<Rightarrow> nat option" where
  "getStream (PyoObject h) = Some h"
| "getStream _ = None"

fun PyList_Check :: "PyObject \<Rightarrow> bool" where
  "PyList_Check (PyList xs) = True"
| "PyList_Check _ = False"

text \<open>
  A Python exception that is set while the setter returns normally is a \<open>PyErr\<close>. A
  failed \<^verbatim>\<open>_getStream\<close> call returns \<^verbatim>\<open>NULL\<close>, and \<^verbatim>\<open>Py_INCREF\<close> of it is the
  fault \<open>NullPointer\<close>.
\<close>

datatype PyErr = TypeError string

text \<open>
  \<^verbatim>\<open>TrigRand_setMin\<close> and \<^verbatim>\<open>TrigRand_setMax\<close>; the argument \<open>None\<close> is
  \<^verbatim>\<open>arg == NULL\<close>. \<^verbatim>\<open>mode_func_ptr\<close> is \<^verbatim>\<open>TrigRand_setProcMode\<close> from
  \<^verbatim>\<open>TrigRand_new\<close> on.
\<close>

definition TrigRand_setMin :: "PyObject option \<Rightarrow> TrigRand \<Rightarrow> fault + TrigRand" where
  "TrigRand_setMin arg s =
    (case arg of
       None \<Rightarrow> Inr s
     | Some tmp' \<Rightarrow>
         let isNumber = PyNumber_Check tmp' in
         if isNumber = 1 then
           let s = s\<lparr>TrigRand.min_v := PyNumber_Float tmp'\<rparr>;
               s = s\<lparr>port.modebuffer := (port.modebuffer s)[2 := 0]\<rparr>
           in Inr (TrigRand_setProcMode s)
         else
           let s = s\<lparr>TrigRand.min_v := tmp'\<rparr> in
           (case getStream (TrigRand.min_v s) of
              None \<Rightarrow> Inl NullPointer
            | Some streamtmp \<Rightarrow>
                let s = s\<lparr>min_stream := Some streamtmp\<rparr>;
                    s = s\<lparr>port.modebuffer := (port.modebuffer s)[2 := 1]\<rparr>
                in Inr (TrigRand_setProcMode s)))"

definition TrigRand_setMax :: "PyObject option \<Rightarrow> TrigRand \<Rightarrow> fault + TrigRand" where
  "TrigRand_setMax arg s =
    (case arg of
       None \<Rightarrow> Inr s
     | Some tmp' \<Rightarrow>
         let isNumber = PyNumber_Check tmp' in
         if isNumber = 1 then
           let s = s\<lparr>TrigRand.max_v := PyNumber_Float tmp'\<rparr>;
               s = s\<lparr>port.modebuffer := (port.modebuffer s)[3 := 0]\<rparr>
           in Inr (TrigRand_setProcMode s)
         else
           let s = s\<lparr>TrigRand.max_v := tmp'\<rparr> in
           (case getStream (TrigRand.max_v s) of
              None \<Rightarrow> Inl NullPointer
            | Some streamtmp \<Rightarrow>
                let s = s\<lparr>max_stream := Some streamtmp\<rparr>;
                    s = s\<lparr>port.modebuffer := (port.modebuffer s)[3 := 1]\<rparr>
                in Inr (TrigRand_setProcMode s)))"

text \<open>
  \<^verbatim>\<open>TrigRand_setPort\<close>. The field \<^verbatim>\<open>time\<close> is a \<^verbatim>\<open>float\<close> and takes the
  converted number; \<^verbatim>\<open>timeStep\<close> is \<^verbatim>\<open>(int)(self->time * self->sr)\<close>, the
  product truncated; \<open>wide\<close> is the format of the product.
\<close>

definition TrigRand_setPort :: "bool \<Rightarrow> PyObject option \<Rightarrow> TrigRand \<Rightarrow> TrigRand" where
  "TrigRand_setPort wide arg s =
    (case arg of
       None \<Rightarrow> s
     | Some tmp' \<Rightarrow>
         let isNumber = PyNumber_Check tmp' in
         if isNumber = 1 then
           let s = s\<lparr>time := c_float (PyFloat_AS_DOUBLE (PyNumber_Float tmp'))\<rparr>
           in s\<lparr>timeStep := float_to_int (float_mul wide (time s) (sr s))\<rparr>
         else s)"

text \<open>
  \<^verbatim>\<open>TrigChoice_setChoice\<close>. It returns \<^verbatim>\<open>None\<close> on both paths; the result here is
  the exception it has set, if any, and the object. \<^verbatim>\<open>realloc\<close> keeps the old
  values up to the new size, and the loop then writes every slot.
\<close>

definition TrigChoice_setChoice :: "PyObject \<Rightarrow> TrigChoice \<Rightarrow> PyErr option \<times> TrigChoice" where
  "TrigChoice_setChoice arg s =
    (if \<not> PyList_Check arg
     then (Some (TypeError ''The choice attribute must be a list.''), s)
     else
       (case arg of
          PyList tmp' \<Rightarrow>
            let s = s\<lparr>chSize := int (length tmp')\<rparr>;
                s = s\<lparr>choice := take (nat (chSize s)) (choice s) @
                                 replicate (nat (chSize s) - length (choice s)) 0\<rparr>;
                s = for_loop 0 (nat (chSize s)) (\<lambda>i s.
                      s\<lparr>choice := (choice s)
                           [i := PyFloat_AS_DOUBLE (PyNumber_Float (PyFloat (tmp' ! i)))]\<rparr>) s
            in (None, TrigChoice_setProcMode s)
        | _ \<Rightarrow> (None, s)))"

text \<open>
  Two objects differ at most in the fields that a parameter setter and the mode
  selection write: the parameter and its stream, the mode flags and the two function
  pointers. The block length, the sampling rate, the output buffer and the state of the
  ramp are the same.
\<close>

definition TrigRand_mode_only :: "TrigRand \<Rightarrow> TrigRand \<Rightarrow> bool" where
  "TrigRand_mode_only s t \<longleftrightarrow>
     t\<lparr>TrigRand.min_v := TrigRand.min_v s, min_stream := min_stream s,
       TrigRand.max_v := TrigRand.max_v s, max_stream := max_stream s,
       port.modebuffer := port.modebuffer s, proc_func_ptr := proc_func_ptr s,
       muladd_func_ptr := muladd_func_ptr s\<rparr> = s"

definition TrigChoice_ex :: TrigChoice where
  "TrigChoice_ex = \<lparr>bufsize = 4, sr = 44100, data = [0, 0, 0, 0],
      port.value = 0, currentValue = 0, time = 0, timeStep = 0, stepVal = 0, timeCount = 0,
      port.modebuffer = [0, 0], proc_func_ptr = Some Generate, muladd_func_ptr = Some Post_ii,
      chSize = 3, choice = [1, 2, 3]\<rparr>"

text \<open>
  What the five loop bodies have in common, written once over the shared fields: the
  statements run on a trigger sample for a new target \<open>v\<close>, the ramp statement, and
  the whole of a sample with its write to the output buffer.
\<close>

definition port_trig :: "real \<Rightarrow> 'a port_scheme \<Rightarrow> 'a port_scheme" where
  "port_trig v s =
    (let s = s\<lparr>timeCount := 0\<rparr>;
         s = s\<lparr>port.value := v\<rparr>
     in if time s \<le> 0
        then s\<lparr>currentValue := port.value s\<rparr>
        else s\<lparr>stepVal := (port.value s - currentValue s) / real_of_int (timeStep s)\<rparr>)"

definition port_ramp :: "'a port_scheme \<Rightarrow> 'a port_scheme" where
  "port_ramp s =
    (if timeCount s = timeStep s - 1
     then s\<lparr>currentValue := port.value s, timeCount := timeCount s + 1\<rparr>
     else if timeCount s < timeStep s
     then s\<lparr>currentValue := currentValue s + stepVal s, timeCount := timeCount s + 1\<rparr>
     else s)"

definition port_sample :: "bool \<Rightarrow> real \<Rightarrow> nat \<Rightarrow> 'a port_scheme \<Rightarrow> 'a port_scheme" where
  "port_sample trig v i s =
    (let s = (if trig then port_trig v s else s);
         s = port_ramp s
     in s\<lparr>data := (data s)[i := currentValue s]\<rparr>)"










text \<open>
  Objects for the examples, at 44100 Hz. A \<^verbatim>\<open>TrigRand\<close> with a block of \<open>n\<close>
  samples that was created with its default arguments (\<^verbatim>\<open>min\<close> 0, \<^verbatim>\<open>max\<close> 1,
  \<^verbatim>\<open>port\<close> 0, \<^verbatim>\<open>init\<close> 0) and has computed blocks without a trigger, which
  leave the ramp as \<^verbatim>\<open>TrigRand_new\<close> set it, and whose port time is then set to
  \<open>p\<close> with \<^verbatim>\<open>setPort\<close>, the product being evaluated as \<open>wide\<close> says. The generator behind \<^verbatim>\<open>rand()\<close> that returns \<open>2^30\<close>
  for ever, which is half of \<^verbatim>\<open>RAND_MAX + 1\<close>.
\<close>

definition TrigRand_ex :: "bool \<Rightarrow> nat \<Rightarrow> real \<Rightarrow> TrigRand" where
  "TrigRand_ex wide n p =
     TrigRand_setPort wide (Some (PyFloat p))
       \<lparr>bufsize = int n, sr = 44100, data = replicate n 0,
        port.value = 0, currentValue = 0, time = 0, timeStep = 0, stepVal = 0, timeCount = 0,
        port.modebuffer = [0, 0, 0, 0], proc_func_ptr = Some Generate_ii,
        muladd_func_ptr = Some Post_ii,
        TrigRand.min_v = PyFloat 0, TrigRand.max_v = PyFloat 1,
        min_stream = None, max_stream = None\<rparr>"


section \<open>TrigEnv and TrigFunc\<close>

text \<open>
  Modelled from the spec: the table collaborator (\<^verbatim>\<open>tablemodule\<close> is not part of the
  sources) gives a buffer, \<^verbatim>\<open>TableStream_getData\<close>, and a size,
  \<^verbatim>\<open>TableStream_getSize\<close>. The list \<open>tablelist\<close> holds the samples that are
  allocated; \<open>size\<close> is what the table reports.
\<close>

record TableStream =
  tablelist :: "real list"
  size :: int

record TrigEnv = pyo_audio_HEAD +
  table :: TableStream
  dur :: PyObject
  modebuffer :: "int list"
  active :: int
  current_dur :: real
  inc :: real
  pointerPos :: real
  trigsBuffer :: "real list"

text \<open>
  The body of the loop of \<^verbatim>\<open>TrigEnv_readframes_i\<close>, for the duration \<open>d\<close> that a
  trigger reads (the constant \<^verbatim>\<open>dur\<close> here, \<^verbatim>\<open>dur_st[i]\<close> in
  \<^verbatim>\<open>TrigEnv_readframes_a\<close>, whose loop is the same otherwise). The reads
  \<^verbatim>\<open>tablelist[ipart]\<close> and \<^verbatim>\<open>tablelist[ipart+1]\<close> are faults outside of the
  allocated samples.
\<close>

definition TrigEnv_readframes_body :: "real list \<Rightarrow> (nat \<Rightarrow> real) \<Rightarrow> nat \<Rightarrow> TrigEnv \<Rightarrow> fault + TrigEnv" where
  "TrigEnv_readframes_body inp d i s =
    (let s = (if inp ! i = 1 then
                let s = s\<lparr>current_dur := sr s * d i\<rparr>;
                    s = s\<lparr>inc := real_of_int (size (table s)) / current_dur s\<rparr>;
                    s = s\<lparr>active := 1\<rparr>
                in s\<lparr>pointerPos := 0\<rparr>
              else s);
         r = (if active s = 1 then
                let ipart = c_int (pointerPos s);
                    fpart = pointerPos s - real_of_int ipart
                in if ipart < 0 \<or> int (length (tablelist (table s))) \<le> ipart
                   then Inl (OutOfBounds ipart)
                   else if ipart + 1 < 0 \<or> int (length (tablelist (table s))) \<le> ipart + 1
                   then Inl (OutOfBounds (ipart + 1))
                   else
                     let x = tablelist (table s) ! nat ipart;
                         x1 = tablelist (table s) ! nat (ipart + 1);
                         s = s\<lparr>data := (data s)[i := x + (x1 - x) * fpart]\<rparr>
                     in Inr (s\<lparr>pointerPos := pointerPos s + inc s\<rparr>)
              else Inr (s\<lparr>data := (data s)[i := 0]\<rparr>))
     in (case r of
           Inl e \<Rightarrow> Inl e
         | Inr s \<Rightarrow>
             if pointerPos s > real_of_int (size (table s)) \<and> active s = 1
             then Inr (s\<lparr>trigsBuffer := (trigsBuffer s)[i := 1], active := 0\<rparr>)
             else Inr s))"

definition TrigEnv_readframes_i :: "real list \<Rightarrow> TrigEnv \<Rightarrow> fault + TrigEnv" where
  "TrigEnv_readframes_i inp s =
     for_loop_e 0 (nat (bufsize s))
       (TrigEnv_readframes_body inp (\<lambda>i. PyFloat_AS_DOUBLE (dur s))) s"

definition TrigEnv_readframes_a :: "real list \<Rightarrow> real list \<Rightarrow> TrigEnv \<Rightarrow> fault + TrigEnv" where
  "TrigEnv_readframes_a inp dur_st s =
     for_loop_e 0 (nat (bufsize s)) (TrigEnv_readframes_body inp (\<lambda>i. dur_st ! i)) s"

text \<open>
  A \<^verbatim>\<open>TrigEnv\<close> after \<^verbatim>\<open>TrigEnv_new\<close> and \<^verbatim>\<open>TrigEnv_init\<close> at 44100 Hz, with a
  block of 10 samples, a table that reports 4 samples and a duration of 8 samples
  (8 / 44100 s), so that the table is read at half a sample per sample.
\<close>

definition TrigEnv_ex :: "real list \<Rightarrow> TrigEnv" where
  "TrigEnv_ex samples =
     \<lparr>bufsize = 10, sr = 44100, data = [0, 0, 0, 0, 0, 0, 0, 0, 0, 0],
      table = \<lparr>tablelist = samples, size = 4\<rparr>, dur = PyFloat (8 / 44100),
      TrigEnv.modebuffer = [0, 0, 0], active = 0, current_dur = 44100, inc = 0,
      pointerPos = 0, trigsBuffer = [0, 0, 0, 0, 0, 0, 0, 0, 0, 0]\<rparr>"

text \<open>
  \<^verbatim>\<open>TrigFunc_generate\<close>: the effect of a trigger is a call of the Python function;
  the model counts the calls.
\<close>

record TrigFunc = pyo_audio_HEAD +
  func_calls :: nat

definition TrigFunc_generate :: "real list \<Rightarrow> TrigFunc \<Rightarrow> TrigFunc" where
  "TrigFunc_generate inp s =
     for_loop 0 (nat (bufsize s)) (\<lambda>i s.
       if inp ! i = 1 then s\<lparr>func_calls := Suc (func_calls s)\<rparr> else s) s"


section \<open>Thresh: the one-shot latch\<close>

text \<open>
  C3. With \<^verbatim>\<open>dir = 2\<close>, a threshold of 0 and an input that stays at 1 above it, the
  constant-threshold variant emits one pulse and then nothing, as a one-shot latch does,
  while the streaming-threshold variant emits a pulse on every sample of the block: its
  \<^verbatim>\<open>ready\<close> flag is set again in the iteration that cleared it.
\<close>

theorem Thresh_generates_a_both_repeats_pulse:
  "data (Thresh_generates_i [1, 1, 1] (Thresh_3 2)) = [1, 0, 0] \<and>
   data (Thresh_generates_a [1, 1, 1] [0, 0, 0] (Thresh_3 2)) = [1, 1, 1]"
  by (simp add: Thresh_generates_i_def Thresh_generates_a_def Thresh_3_def
      for_loop.simps Let_def)


section \<open>HilbertMain: the allpass sections\<close>

text \<open>
  The state after one input sample of 1, computed exactly: each list is given in full.
\<close>

lemma HilbertMain_filters_44100_result:
  "HilbertMain_filters [1] HilbertMain_44100 = HilbertMain_44100\<lparr>
       HilbertMain.x1 := [1, -0.999229, 0.9933923035652, -0.96998430534168069676,
         0.881436281077218815146103444, -0.5975571222174810914992442405805508,
         0.04733255940655889900576428622080948692308,
         0.04733255940655889900576428622080948692308,
         0.04733255940655889900576428622080948692308,
         0.04733255940655889900576428622080948692308,
         0.04733255940655889900576428622080948692308,
         0.04733255940655889900576428622080948692308],
       y1 := [-0.999229, 0.9933923035652, -0.96998430534168069676,
         0.881436281077218815146103444, -0.5975571222174810914992442405805508,
         0.04733255940655889900576428622080948692308,
         0.04733255940655889900576428622080948692308,
         0.04733255940655889900576428622080948692308,
         0.04733255940655889900576428622080948692308,
         0.04733255940655889900576428622080948692308,
         0.04733255940655889900576428622080948692308,
         0.04733255940655889900576428622080948692308],
       buffer_streams := [0.04733255940655889900576428622080948692308,
         -0.16848787691442266134501452470429282208]\<rparr>"
  by (simp add: HilbertMain_filters_def HilbertMain_filters_sample_def HilbertMain_44100_def
      for_loop.simps Let_def)

text \<open>
  C2. One input sample of 1 into a filter whose memories are 0. Section 6 is the first
  section of the imaginary chain: its input is the input sample 1 and its output is
  \<^verbatim>\<open>coefs[6] * (1 - 0) + 0\<close>. After the step its memories \<^verbatim>\<open>x1[6]\<close> and
  \<^verbatim>\<open>y1[6]\<close> both hold the output of the real chain (the value written to
  \<^verbatim>\<open>buffer_streams[0]\<close>), not the section's own input and output.
\<close>

theorem HilbertMain_filters_imag_memories:
  "HilbertMain.x1 (HilbertMain_filters [1] HilbertMain_44100) ! 6 =
     buffer_streams (HilbertMain_filters [1] HilbertMain_44100) ! 0 \<and>
   y1 (HilbertMain_filters [1] HilbertMain_44100) ! 6 =
     buffer_streams (HilbertMain_filters [1] HilbertMain_44100) ! 0 \<and>
   HilbertMain.x1 (HilbertMain_filters [1] HilbertMain_44100) ! 6 \<noteq> 1 \<and>
   y1 (HilbertMain_filters [1] HilbertMain_44100) ! 6 \<noteq> coefs HilbertMain_44100 ! 6 * (1 - 0) + 0 \<and>
   HilbertMain.x1 (HilbertMain_filters [1] HilbertMain_44100) ! 0 = 1 \<and>
   y1 (HilbertMain_filters [1] HilbertMain_44100) ! 0 = coefs HilbertMain_44100 ! 0 * (1 - 0) + 0"
  by (simp add: HilbertMain_filters_44100_result) (simp add: HilbertMain_44100_def)


section \<open>Conversions between integers and floats\<close>

lemma float_exp_numeral:
  "float_exp (numeral k) x =
     (if 2 \<le> \<bar>x\<bar> then float_exp (pred_numeral k) (x / 2) + 1
      else if \<bar>x\<bar> < 1 then float_exp (pred_numeral k) (x * 2) - 1
      else 0)"
  by (simp add: numeral_eq_Suc)

lemma float_exp_bounds:
  "1 \<le> \<bar>x\<bar> \<Longrightarrow> \<bar>x\<bar> < 2 ^ m \<Longrightarrow> m \<le> k \<Longrightarrow>
     0 \<le> float_exp k x \<and> float_exp k x < int m"
proof (induction k arbitrary: x m)
  case 0
  then show ?case by simp
next
  case (Suc k)
  show ?case
  proof (cases "2 \<le> \<bar>x\<bar>")
    case True
    obtain m' where m: "m = Suc m'" using Suc.prems by (cases m) auto
    have h: "1 \<le> \<bar>x / 2\<bar>" "\<bar>x / 2\<bar> < 2 ^ m'" "m' \<le> k"
      using True Suc.prems m by simp_all
    show ?thesis using Suc.IH[OF h] True m by simp
  next
    case False
    have "m \<noteq> 0" using Suc.prems by (cases m) auto
    then show ?thesis using False Suc.prems by simp
  qed
qed

lemma round_even_of_int [simp]: "round_even (real_of_int z) = z"
  by (simp add: round_even_def)

lemma round_even_numeral [simp]:
  "round_even (numeral w) = numeral w" "round_even (- numeral w) = - numeral w"
  using round_even_of_int[of "numeral w"] round_even_of_int[of "- numeral w"] by simp_all

lemma c_float_of_int_less:
  assumes "\<bar>k\<bar> < 16777216"
  shows "c_float (real_of_int k) = real_of_int k"
proof (cases "k = 0")
  case True
  then show ?thesis by (simp add: c_float_def)
next
  case False
  define e where "e = float_exp 300 (real_of_int k)"
  have "1 \<le> \<bar>real_of_int k\<bar>" using False by (simp flip: of_int_abs)
  moreover have "\<bar>real_of_int k\<bar> < 2 ^ 24" using assms by (simp flip: of_int_abs)
  ultimately have e: "0 \<le> e" "e < 24"
    using float_exp_bounds[of "real_of_int k" 24 300] by (simp_all add: e_def)
  define d where "d = nat (23 - e)"
  have p: "(2 :: real) powi (e - 23) = 1 / 2 ^ d"
    using e by (simp add: d_def power_int_def field_simps)
  have "real_of_int k / (1 / 2 ^ d) = real_of_int (k * 2 ^ d)" by simp
  then have r: "round_even (real_of_int k / (1 / 2 ^ d)) = k * 2 ^ d"
    by (simp only: round_even_of_int)
  have m: "max e (- 126) = e" using e by simp
  show ?thesis
    using False unfolding c_float_def e_def[symmetric] Let_def m p r by simp
qed

lemma c_float_of_int:
  assumes "- 16777216 \<le> k" and "k \<le> 16777216"
  shows "c_float (real_of_int k) = real_of_int k"
proof -
  consider "\<bar>k\<bar> < 16777216" | "k = 16777216" | "k = - 16777216" using assms by linarith
  then show ?thesis
  proof cases
    case 1
    then show ?thesis by (rule c_float_of_int_less)
  next
    case 2
    then show ?thesis by (simp add: c_float_def Let_def float_exp_numeral)
  next
    case 3
    then show ?thesis by (simp add: c_float_def Let_def float_exp_numeral)
  qed
qed

lemma c_long_id:
  "- 9223372036854775808 \<le> x \<Longrightarrow> x < 9223372036854775808 \<Longrightarrow> c_long x = x"
  by (simp add: c_long_def)






section \<open>Loops over a block\<close>

lemma for_loop_rule:
  assumes step: "\<And>j s. i \<le> j \<Longrightarrow> j < n \<Longrightarrow> Q j s \<Longrightarrow> Q (Suc j) (b j s)"
    and init: "Q i s" and le: "i \<le> n"
  shows "Q n (for_loop i n b s)"
  using init le step
proof (induction "n - i" arbitrary: i s)
  case 0
  then show ?case by (simp add: for_loop.simps)
next
  case (Suc k)
  then have lt: "i < n" by simp
  have "Q n (for_loop (Suc i) n b (b i s))"
  proof (rule Suc.hyps(1))
    show "k = n - Suc i" using Suc.hyps(2) by simp
    show "Q (Suc i) (b i s)" using Suc.prems(3)[of i s] Suc.prems(1) lt by simp
    show "Suc i \<le> n" using lt by simp
    show "\<And>j s. Suc i \<le> j \<Longrightarrow> j < n \<Longrightarrow> Q j s \<Longrightarrow> Q (Suc j) (b j s)"
      using Suc.prems(3) by simp
  qed
  then show ?case using lt by (subst for_loop.simps) simp
qed



lemma for_loop_e_rule:
  assumes step: "\<And>j s s'. i \<le> j \<Longrightarrow> j < n \<Longrightarrow> Q j s \<Longrightarrow> b j s = Inr s' \<Longrightarrow> Q (Suc j) s'"
    and init: "Q i s" and le: "i \<le> n" and ret: "for_loop_e i n b s = Inr t"
  shows "Q n t"
  using init le ret step
proof (induction "n - i" arbitrary: i s)
  case 0
  then show ?case by (simp add: for_loop_e.simps)
next
  case (Suc k)
  then have lt: "i < n" by simp
  obtain s' where s': "b i s = Inr s'" and rest: "for_loop_e (Suc i) n b s' = Inr t"
    using Suc.prems(3) lt by (subst (asm) for_loop_e.simps) (auto split: sum.splits)
  show ?case
  proof (rule Suc.hyps(1))
    show "k = n - Suc i" using Suc.hyps(2) by simp
    show "Q (Suc i) s'" using Suc.prems(4)[of i s s'] Suc.prems(1) lt s' by simp
    show "Suc i \<le> n" using lt by simp
    show "for_loop_e (Suc i) n b s' = Inr t" by (rule rest)
    show "\<And>j s s'. Suc i \<le> j \<Longrightarrow> j < n \<Longrightarrow> Q j s \<Longrightarrow> b j s = Inr s' \<Longrightarrow> Q (Suc j) s'"
      using Suc.prems(4) by simp
  qed
qed



section \<open>Counter: forward cycle and ping-pong\<close>

lemma Counter_trig_fields [simp]:
  "Counter.min_v (Counter_trig s) = Counter.min_v s" "Counter.max_v (Counter_trig s) = Counter.max_v s"
  "Counter.dir (Counter_trig s) = Counter.dir s"
  by (simp_all add: Counter_trig_def Let_def)

lemma Counter_trig_pow_fields [simp]:
  "Counter.min_v ((Counter_trig ^^ n) s) = Counter.min_v s" "Counter.max_v ((Counter_trig ^^ n) s) = Counter.max_v s"
  "Counter.dir ((Counter_trig ^^ n) s) = Counter.dir s"
  by (induction n) simp_all

lemma Counter_exact_pow [simp]: "Counter_exact ((Counter_trig ^^ n) s) = Counter_exact s"
  by (simp add: Counter_exact_def)

lemma Counter_trig_forward:
  assumes "Counter.dir s = 0" and "- 16777216 \<le> tmp s" and "tmp s \<le> 16777216"
  shows "tmp (Counter_trig s) = (if tmp s + 1 > Counter.max_v s then Counter.min_v s else tmp s + 1) \<and>
     Counter.value (Counter_trig s) = real_of_int (tmp s)"
proof -
  have l: "c_long (tmp s + 1) = tmp s + 1" using assms by (intro c_long_id) simp_all
  have f: "c_float (real_of_int (tmp s)) = real_of_int (tmp s)"
    using assms by (intro c_float_of_int)
  show ?thesis using assms(1) by (simp add: Counter_trig_def Let_def l f)
qed

lemma Counter_trig_pingpong:
  assumes "Counter.dir s = 2" and "- 16777216 \<le> tmp s" and "tmp s \<le> 16777216"
    and "direction s = 1 \<or> direction s = - 1"
  shows "Counter.value (Counter_trig s) = real_of_int (tmp s) \<and>
     tmp (Counter_trig s) =
       (if tmp s + direction s \<ge> Counter.max_v s then tmp s + direction s - 1
        else if tmp s + direction s \<le> Counter.min_v s then tmp s + direction s + 1
        else tmp s + direction s) \<and>
     direction (Counter_trig s) =
       (if tmp s + direction s \<ge> Counter.max_v s then - 1
        else if tmp s + direction s \<le> Counter.min_v s then 1
        else direction s)"
proof -
  have l: "c_long (tmp s + direction s) = tmp s + direction s"
    "c_long (tmp s + direction s - 1) = tmp s + direction s - 1"
    "c_long (tmp s + direction s + 1) = tmp s + direction s + 1"
    using assms by (auto intro!: c_long_id)
  have f: "c_float (real_of_int (tmp s)) = real_of_int (tmp s)"
    using assms by (intro c_float_of_int)
  show ?thesis using assms(1) by (simp add: Counter_trig_def Let_def l f)
qed

lemma Counter_forward_tmp:
  assumes "Counter.dir s = 0" "tmp s = Counter.min_v s" "Counter.min_v s \<le> Counter.max_v s"
    and "Counter_exact s"
  shows "tmp ((Counter_trig ^^ n) s) = Counter.min_v s + int n mod (Counter.max_v s - Counter.min_v s + 1)"
proof (induction n)
  case 0
  show ?case using assms by simp
next
  case (Suc n)
  let ?L = "Counter.max_v s - Counter.min_v s + 1"
  have L: "0 < ?L" using assms by simp
  have m: "0 \<le> int n mod ?L" "int n mod ?L < ?L"
    using L pos_mod_sign[of ?L "int n"] pos_mod_bound[of ?L "int n"] by blast+
  have step: "(int n + 1) mod ?L = (if int n mod ?L + 1 = ?L then 0 else int n mod ?L + 1)"
  proof (cases "int n mod ?L + 1 = ?L")
    case True
    have "(int n + 1) mod ?L = (int n mod ?L + 1) mod ?L" by (simp add: mod_add_left_eq)
    also have "\<dots> = 0" using True by simp
    finally show ?thesis using True by simp
  next
    case False
    have "(int n + 1) mod ?L = (int n mod ?L + 1) mod ?L" by (simp add: mod_add_left_eq)
    also have "\<dots> = int n mod ?L + 1" using False m by (intro mod_pos_pos_trivial) linarith+
    finally show ?thesis using False by simp
  qed
  have d: "Counter.dir ((Counter_trig ^^ n) s) = 0" using assms by simp
  have b: "- 16777216 \<le> tmp ((Counter_trig ^^ n) s)" "tmp ((Counter_trig ^^ n) s) \<le> 16777216"
    using Suc m assms(4) by (simp_all add: Counter_exact_def)
  have S: "int (Suc n) mod ?L = (int n + 1) mod ?L" by (simp add: add.commute)
  have "tmp ((Counter_trig ^^ Suc n) s) =
        (if tmp ((Counter_trig ^^ n) s) + 1 > Counter.max_v s then Counter.min_v s
         else tmp ((Counter_trig ^^ n) s) + 1)"
    using Counter_trig_forward[OF d b] by simp
  also have "\<dots> = Counter.min_v s + (int n + 1) mod ?L"
    unfolding Suc step using m by auto
  finally show ?case unfolding S .
qed

lemma Counter_forward_value:
  assumes "Counter.dir s = 0" "tmp s = Counter.min_v s" "Counter.min_v s \<le> Counter.max_v s"
    and "Counter_exact s"
  shows "Counter.value ((Counter_trig ^^ Suc n) s) = real_of_int (Counter.min_v s + int n mod (Counter.max_v s - Counter.min_v s + 1))"
proof -
  let ?L = "Counter.max_v s - Counter.min_v s + 1"
  have L: "0 < ?L" using assms by simp
  have m: "0 \<le> int n mod ?L" "int n mod ?L < ?L"
    using L pos_mod_sign[of ?L "int n"] pos_mod_bound[of ?L "int n"] by blast+
  have d: "Counter.dir ((Counter_trig ^^ n) s) = 0" using assms by simp
  have t: "tmp ((Counter_trig ^^ n) s) = Counter.min_v s + int n mod ?L"
    by (rule Counter_forward_tmp[OF assms])
  have b: "- 16777216 \<le> tmp ((Counter_trig ^^ n) s)" "tmp ((Counter_trig ^^ n) s) \<le> 16777216"
    using t m assms(4) by (simp_all add: Counter_exact_def)
  show ?thesis using t Counter_trig_forward[OF d b] by simp
qed

lemma Counter_inv_bounds:
  assumes "Counter_inv s" and "Counter_exact s"
  shows "- 16777216 \<le> tmp s" and "tmp s \<le> 16777216"
    and "direction s = 1 \<or> direction s = - 1"
  using assms by (auto simp: Counter_inv_def Counter_exact_def)

lemma Counter_inv_trig:
  assumes "Counter.dir s = 2" and "Counter_inv s" and "Counter_exact s"
  shows "Counter_inv (Counter_trig s)"
  using Counter_trig_pingpong[OF assms(1) Counter_inv_bounds[OF assms(2,3)]] assms(2)
  by (auto simp: Counter_inv_def)

lemma Counter_inv_pow:
  "Counter.dir s = 2 \<Longrightarrow> Counter_inv s \<Longrightarrow> Counter_exact s \<Longrightarrow>
   Counter_inv ((Counter_trig ^^ n) s)"
proof (induction n)
  case 0
  then show ?case by simp
next
  case (Suc n)
  have "Counter_inv (Counter_trig ((Counter_trig ^^ n) s))"
    using Suc by (intro Counter_inv_trig) simp_all
  then show ?case by simp
qed

lemma Counter_pingpong_value:
  assumes "Counter.dir s = 2" "Counter_inv s" "Counter_exact s"
  shows "real_of_int (Counter.min_v s) \<le> Counter.value ((Counter_trig ^^ Suc n) s) \<and>
         Counter.value ((Counter_trig ^^ Suc n) s) \<le> real_of_int (Counter.max_v s)"
proof -
  let ?u = "(Counter_trig ^^ n) s"
  have d: "Counter.dir ?u = 2" using assms by simp
  have i: "Counter_inv ?u" by (rule Counter_inv_pow[OF assms])
  have e: "Counter_exact ?u" using assms(3) by simp
  show ?thesis
    using i Counter_trig_pingpong[OF d Counter_inv_bounds[OF i e]]
    by (simp add: Counter_inv_def)
qed

lemma Counter_trig_data:
  "Counter_trig (s\<lparr>data := d\<rparr>) = (Counter_trig s)\<lparr>data := d\<rparr>"
  "data (Counter_trig s) = data s"
  by (simp_all add: Counter_trig_def Let_def)

lemma Counter_generates_sample:
  assumes len: "length (data s) = nat (bufsize s)" "length inp = nat (bufsize s)"
    and i: "i < nat (bufsize s)"
  shows "data (Counter_generates inp s) ! i =
         Counter.value ((Counter_trig ^^ length (filter (\<lambda>x. x = 1) (take (Suc i) inp))) s)"
proof -
  define c where "c = (\<lambda>j. length (filter (\<lambda>x. x = 1) (take j inp)))"
  define B where "B = nat (bufsize s)"
  let ?b = "\<lambda>i s. let s = (if inp ! i = 1 then Counter_trig s else s)
                  in s\<lparr>data := (data s)[i := Counter.value s]\<rparr>"
  let ?Q = "\<lambda>j u. u = ((Counter_trig ^^ c j) s)\<lparr>data := data u\<rparr> \<and> length (data u) = B \<and>
              (\<forall>k<j. data u ! k = Counter.value ((Counter_trig ^^ c (Suc k)) s))"
  have cS: "c (Suc j) = (if inp ! j = 1 then Suc (c j) else c j)" if "j < B" for j
    using that len by (simp add: c_def B_def take_Suc_conv_app_nth)
  have "?Q B (for_loop 0 B ?b s)"
  proof (rule for_loop_rule[where Q = ?Q])
    show "?Q 0 s" using len by (simp add: c_def B_def)
    show "0 \<le> B" by simp
    fix j and u :: Counter
    assume j: "j < B" and Q: "?Q j u"
    define T where "T = (Counter_trig ^^ c j) s"
    define d where "d = data u"
    have u: "u = T\<lparr>data := d\<rparr>" using Q by (simp add: T_def d_def)
    have ld: "length d = B" using Q by (simp add: d_def)
    have old: "\<forall>k<j. d ! k = Counter.value ((Counter_trig ^^ c (Suc k)) s)"
      using Q by (simp add: d_def)
    define T' where "T' = (Counter_trig ^^ c (Suc j)) s"
    have T': "T' = (if inp ! j = 1 then Counter_trig T else T)"
      by (simp add: T'_def T_def cS[OF j])
    have b: "?b j u = T'\<lparr>data := d[j := Counter.value T']\<rparr>"
      unfolding u T' by (simp add: Counter_trig_data Let_def)
    have "\<forall>k<Suc j. (d[j := Counter.value T']) ! k = Counter.value ((Counter_trig ^^ c (Suc k)) s)"
      using old ld j by (auto simp: less_Suc_eq nth_list_update T'_def)
    then show "?Q (Suc j) (?b j u)"
      unfolding b using ld by (simp add: T'_def)
  qed
  then show ?thesis
    using i unfolding Counter_generates_def B_def[symmetric] c_def by simp
qed

text \<open>
  C4 as stated fails in ping-pong mode: created with \<^verbatim>\<open>min = 0\<close>, \<^verbatim>\<open>max = 3\<close>,
  \<^verbatim>\<open>dir = 2\<close> and triggered on every sample, the counter emits 0, 1, 2, 2, 1, 1. At the
  third trigger \<^verbatim>\<open>tmp\<close> is 2 and the forward step gives 3, which does not exceed
  \<^verbatim>\<open>max\<close>; the counter reverses all the same and steps back to 2, so that 3 is never
  emitted. It also fails in forward mode for bounds that a \<^verbatim>\<open>float\<close> does not
  hold: with \<^verbatim>\<open>min = 16777217\<close> the cast \<^verbatim>\<open>(float)self->tmp\<close> makes the first
  trigger emit 16777216, which is below \<^verbatim>\<open>min\<close>.
\<close>

theorem Counter_pingpong_reverses_before_max:
  "data (Counter_generates [1, 1, 1, 1, 1, 1] (Counter_init 6 0 3 2)) = [0, 1, 2, 2, 1, 1] \<and>
   tmp ((Counter_trig ^^ 2) (Counter_init 6 0 3 2)) = 2 \<and>
   direction ((Counter_trig ^^ 2) (Counter_init 6 0 3 2)) = 1 \<and>
   \<not> tmp ((Counter_trig ^^ 2) (Counter_init 6 0 3 2)) +
       direction ((Counter_trig ^^ 2) (Counter_init 6 0 3 2)) >
         Counter.max_v ((Counter_trig ^^ 2) (Counter_init 6 0 3 2)) \<and>
   direction ((Counter_trig ^^ 3) (Counter_init 6 0 3 2)) = - 1 \<and>
   tmp ((Counter_trig ^^ 3) (Counter_init 6 0 3 2)) = 2 \<and>
   Counter.value (Counter_trig (Counter_init 1 16777217 16777220 0)) = 16777216"
proof -
  have a: "data (Counter_generates [1, 1, 1, 1, 1, 1] (Counter_init 6 0 3 2)) = [0, 1, 2, 2, 1, 1] \<and>
   tmp ((Counter_trig ^^ 2) (Counter_init 6 0 3 2)) = 2 \<and>
   direction ((Counter_trig ^^ 2) (Counter_init 6 0 3 2)) = 1 \<and>
   \<not> tmp ((Counter_trig ^^ 2) (Counter_init 6 0 3 2)) +
       direction ((Counter_trig ^^ 2) (Counter_init 6 0 3 2)) >
         Counter.max_v ((Counter_trig ^^ 2) (Counter_init 6 0 3 2)) \<and>
   direction ((Counter_trig ^^ 3) (Counter_init 6 0 3 2)) = - 1 \<and>
   tmp ((Counter_trig ^^ 3) (Counter_init 6 0 3 2)) = 2"
    by (simp add: Counter_generates_def Counter_init_def Counter_trig_def for_loop.simps
        Let_def numeral_eq_Suc c_long_def c_float_def float_exp_numeral power_int_minus)
  have b: "Counter.value (Counter_trig (Counter_init 1 16777217 16777220 0)) = 16777216"
    by (simp add: Counter_init_def Counter_trig_def Let_def c_float_def float_exp_numeral
        round_even_def)
  show ?thesis using a b by blast
qed

text \<open>
  C4, amended. The bounds \<^verbatim>\<open>min\<close> and \<^verbatim>\<open>max\<close> are of magnitude at most
  \<open>2^24 = 16777216\<close>, the integers that the \<^verbatim>\<open>float\<close> \<^verbatim>\<open>value\<close> holds exactly.
  Forward mode (\<^verbatim>\<open>dir = 0\<close>), started at \<^verbatim>\<open>min\<close> with \<^verbatim>\<open>min \<le> max\<close>: trigger
  number \<open>n\<close> (from 0) emits \<open>min + n mod (max - min + 1)\<close>, that is
  \<open>min, min + 1, \<dots>, max\<close> and then \<open>min\<close> again. Ping-pong mode (\<^verbatim>\<open>dir = 2\<close>),
  started with \<^verbatim>\<open>tmp\<close> between the bounds and \<^verbatim>\<open>direction\<close> 1 or -1: every
  emitted value lies in \<open>[min, max]\<close>. On a trigger in ping-pong mode the counter steps
  by \<^verbatim>\<open>direction\<close>; when the stepped value reaches or passes \<^verbatim>\<open>max\<close> the direction
  becomes -1 and the counter is decremented once in the same tick; otherwise, when it
  reaches or passes \<^verbatim>\<open>min\<close>, the direction becomes 1 and the counter is incremented
  once; otherwise the direction is kept. In \<^verbatim>\<open>Counter_generates\<close>, sample \<open>i\<close> of
  the block is the value emitted on the last trigger up to \<open>i\<close>: the value after as
  many triggers as the input has among its samples 0 to \<open>i\<close>.
\<close>

theorem Counter_forward_cycle_and_pingpong:
  "(Counter.dir s = 0 \<and> tmp s = Counter.min_v s \<and> Counter.min_v s \<le> Counter.max_v s \<and>
    Counter_exact s \<longrightarrow>
      Counter.value ((Counter_trig ^^ Suc n) s) =
        real_of_int (Counter.min_v s + int n mod (Counter.max_v s - Counter.min_v s + 1))) \<and>
   (Counter.dir t = 2 \<and> Counter_inv t \<and> Counter_exact t \<longrightarrow>
      real_of_int (Counter.min_v t) \<le> Counter.value ((Counter_trig ^^ Suc n) t) \<and>
      Counter.value ((Counter_trig ^^ Suc n) t) \<le> real_of_int (Counter.max_v t)) \<and>
   (Counter.dir t = 2 \<and> Counter_inv t \<and> Counter_exact t \<longrightarrow>
      Counter.value (Counter_trig t) = real_of_int (tmp t) \<and>
      tmp (Counter_trig t) =
        (if tmp t + direction t \<ge> Counter.max_v t then tmp t + direction t - 1
         else if tmp t + direction t \<le> Counter.min_v t then tmp t + direction t + 1
         else tmp t + direction t) \<and>
      direction (Counter_trig t) =
        (if tmp t + direction t \<ge> Counter.max_v t then - 1
         else if tmp t + direction t \<le> Counter.min_v t then 1
         else direction t)) \<and>
   (length (data u) = nat (bufsize u) \<and> length inp = nat (bufsize u) \<and> i < nat (bufsize u) \<longrightarrow>
      data (Counter_generates inp u) ! i =
        Counter.value ((Counter_trig ^^ length (filter (\<lambda>x. x = 1) (take (Suc i) inp))) u))"
proof (intro conjI impI)
  assume "Counter.dir s = 0 \<and> tmp s = Counter.min_v s \<and> Counter.min_v s \<le> Counter.max_v s \<and>
    Counter_exact s"
  then show "Counter.value ((Counter_trig ^^ Suc n) s) =
        real_of_int (Counter.min_v s + int n mod (Counter.max_v s - Counter.min_v s + 1))"
    by (intro Counter_forward_value) simp_all
next
  assume h: "Counter.dir t = 2 \<and> Counter_inv t \<and> Counter_exact t"
  then have v: "real_of_int (Counter.min_v t) \<le> Counter.value ((Counter_trig ^^ Suc n) t) \<and>
      Counter.value ((Counter_trig ^^ Suc n) t) \<le> real_of_int (Counter.max_v t)"
    by (intro Counter_pingpong_value) simp_all
  show "real_of_int (Counter.min_v t) \<le> Counter.value ((Counter_trig ^^ Suc n) t)"
    using v by (rule conjunct1)
  show "Counter.value ((Counter_trig ^^ Suc n) t) \<le> real_of_int (Counter.max_v t)"
    using v by (rule conjunct2)
next
  assume h: "Counter.dir t = 2 \<and> Counter_inv t \<and> Counter_exact t"
  have p: "Counter.value (Counter_trig t) = real_of_int (tmp t) \<and>
     tmp (Counter_trig t) =
       (if tmp t + direction t \<ge> Counter.max_v t then tmp t + direction t - 1
        else if tmp t + direction t \<le> Counter.min_v t then tmp t + direction t + 1
        else tmp t + direction t) \<and>
     direction (Counter_trig t) =
       (if tmp t + direction t \<ge> Counter.max_v t then - 1
        else if tmp t + direction t \<le> Counter.min_v t then 1
        else direction t)"
    using h by (intro Counter_trig_pingpong Counter_inv_bounds) simp_all
  show "Counter.value (Counter_trig t) = real_of_int (tmp t)" using p by (rule conjunct1)
  show "tmp (Counter_trig t) =
       (if tmp t + direction t \<ge> Counter.max_v t then tmp t + direction t - 1
        else if tmp t + direction t \<le> Counter.min_v t then tmp t + direction t + 1
        else tmp t + direction t)" using p by simp
  show "direction (Counter_trig t) =
       (if tmp t + direction t \<ge> Counter.max_v t then - 1
        else if tmp t + direction t \<le> Counter.min_v t then 1
        else direction t)" using p by simp
next
  assume "length (data u) = nat (bufsize u) \<and> length inp = nat (bufsize u) \<and> i < nat (bufsize u)"
  then show "data (Counter_generates inp u) ! i =
        Counter.value ((Counter_trig ^^ length (filter (\<lambda>x. x = 1) (take (Suc i) inp))) u)"
    by (intro Counter_generates_sample) simp_all
qed

theorem Counter_forward_cycle_and_pingpong_witness:
  "Counter.dir (Counter_init 1 0 3 0) = 0 \<and>
   tmp (Counter_init 1 0 3 0) = Counter.min_v (Counter_init 1 0 3 0) \<and>
   Counter.min_v (Counter_init 1 0 3 0) \<le> Counter.max_v (Counter_init 1 0 3 0) \<and>
   Counter_exact (Counter_init 1 0 3 0) \<and>
   Counter.value ((Counter_trig ^^ Suc 4) (Counter_init 1 0 3 0)) = 0 \<and>
   Counter.dir (Counter_init 1 0 3 2) = 2 \<and> Counter_inv (Counter_init 1 0 3 2) \<and>
   Counter_exact (Counter_init 1 0 3 2) \<and>
   0 \<le> Counter.value ((Counter_trig ^^ Suc 4) (Counter_init 1 0 3 2)) \<and>
   Counter.value ((Counter_trig ^^ Suc 4) (Counter_init 1 0 3 2)) \<le> 3 \<and>
   tmp (Counter_trig (Counter_init 1 0 3 2)) = 1 \<and>
   direction (Counter_trig (Counter_init 1 0 3 2)) = 1 \<and>
   length (data (Counter_init 2 0 3 0)) = nat (bufsize (Counter_init 2 0 3 0)) \<and>
   length [1, 1 :: real] = nat (bufsize (Counter_init 2 0 3 0)) \<and>
   1 < nat (bufsize (Counter_init 2 0 3 0)) \<and>
   data (Counter_generates [1, 1] (Counter_init 2 0 3 0)) ! 1 =
     Counter.value ((Counter_trig ^^ 2) (Counter_init 2 0 3 0))"
proof -
  let ?a = "Counter_init 1 0 3 0" and ?b = "Counter_init 1 0 3 2" and ?c = "Counter_init 2 0 3 0"
  note T = Counter_forward_cycle_and_pingpong[of ?a 4 ?b ?c "[1, 1]" 1]
  have h1: "Counter.dir ?a = 0 \<and> tmp ?a = Counter.min_v ?a \<and> Counter.min_v ?a \<le> Counter.max_v ?a \<and>
      Counter_exact ?a"
    by (simp add: Counter_init_def Counter_exact_def)
  have h2: "Counter.dir ?b = 2 \<and> Counter_inv ?b \<and> Counter_exact ?b"
    by (simp add: Counter_init_def Counter_exact_def Counter_inv_def)
  have h3: "length (data ?c) = nat (bufsize ?c) \<and> length [1, 1 :: real] = nat (bufsize ?c) \<and>
      1 < nat (bufsize ?c)"
    by (simp add: Counter_init_def)
  have "Counter.value ((Counter_trig ^^ Suc 4) ?a) =
      real_of_int (Counter.min_v ?a + int 4 mod (Counter.max_v ?a - Counter.min_v ?a + 1))"
    using T h1 by blast
  then have c1: "Counter.value ((Counter_trig ^^ Suc 4) ?a) = 0"
    by (simp add: Counter_init_def)
  have "real_of_int (Counter.min_v ?b) \<le> Counter.value ((Counter_trig ^^ Suc 4) ?b) \<and>
      Counter.value ((Counter_trig ^^ Suc 4) ?b) \<le> real_of_int (Counter.max_v ?b)"
    using T h2 by blast
  then have c2: "0 \<le> Counter.value ((Counter_trig ^^ Suc 4) ?b) \<and>
      Counter.value ((Counter_trig ^^ Suc 4) ?b) \<le> 3"
    by (simp add: Counter_init_def)
  have "tmp (Counter_trig ?b) =
        (if tmp ?b + direction ?b \<ge> Counter.max_v ?b then tmp ?b + direction ?b - 1
         else if tmp ?b + direction ?b \<le> Counter.min_v ?b then tmp ?b + direction ?b + 1
         else tmp ?b + direction ?b) \<and>
      direction (Counter_trig ?b) =
        (if tmp ?b + direction ?b \<ge> Counter.max_v ?b then - 1
         else if tmp ?b + direction ?b \<le> Counter.min_v ?b then 1
         else direction ?b)"
    using T h2 by blast
  then have c3: "tmp (Counter_trig ?b) = 1 \<and> direction (Counter_trig ?b) = 1"
    by (simp add: Counter_init_def)
  have "data (Counter_generates [1, 1] ?c) ! 1 =
      Counter.value ((Counter_trig ^^ length (filter (\<lambda>x. x = 1) (take (Suc 1) [1, 1 :: real]))) ?c)"
    using T h3 by blast
  then have c4: "data (Counter_generates [1, 1] ?c) ! 1 = Counter.value ((Counter_trig ^^ 2) ?c)"
    by (simp add: numeral_2_eq_2)
  show ?thesis using h1 h2 h3 c1 c2 c3 c4 by blast
qed


section \<open>TrigXnoise: the looped random walk\<close>

lemma TrigXnoise_walk_frame:
  "(fst (TrigXnoise_walk (s, g)))\<lparr>xx2 := a, walkerValue := b\<rparr> = s\<lparr>xx2 := a, walkerValue := b\<rparr>"
  by (simp add: TrigXnoise_walk_def Let_def rand_def)

lemma TrigXnoise_walk_eq:
  "\<exists>x w g'. TrigXnoise_walk (s, g) = (s\<lparr>xx2 := x, walkerValue := w\<rparr>, g')"
proof -
  obtain s' g' where e: "TrigXnoise_walk (s, g) = (s', g')" by (cases "TrigXnoise_walk (s, g)")
  have "s' = s'\<lparr>xx2 := xx2 s', walkerValue := walkerValue s'\<rparr>" by simp
  also have "\<dots> = s\<lparr>xx2 := xx2 s', walkerValue := walkerValue s'\<rparr>"
    using TrigXnoise_walk_frame[where s=s and g=g and a="xx2 s'" and b="walkerValue s'"] e by simp
  finally have "s' = s\<lparr>xx2 := xx2 s', walkerValue := walkerValue s'\<rparr>" .
  then have "TrigXnoise_walk (s, g) = (s\<lparr>xx2 := xx2 s', walkerValue := walkerValue s'\<rparr>, g')"
    using e by simp
  then show ?thesis by (intro exI)
qed
lemma loopseg_rec:
  assumes "loopChoice s = 0"
  shows "\<exists>x v g' st.
     TrigXnoise_loopseg (s, g) =
       (v, s\<lparr>loopTime := 0, loopCountPlay := 0, xx2 := x, walkerValue := v,
              loop_buffer := (loop_buffer s)[nat (loopCountRec s) := v],
              loopCountRec := loopCountRec s + 1,
              loopChoice := (if loopCountRec s + 1 < loopLen s then 0 else 1),
              loopStop := (if loopCountRec s + 1 < loopLen s then loopStop s else st)\<rparr>, g') \<and>
     1 \<le> st \<and> st \<le> 4"
proof -
  obtain x w g' where w: "TrigXnoise_walk (s\<lparr>loopTime := 0, loopCountPlay := 0\<rparr>, g) =
      (s\<lparr>loopTime := 0, loopCountPlay := 0, xx2 := x, walkerValue := w\<rparr>, g')"
    using TrigXnoise_walk_eq[of "s\<lparr>loopTime := 0, loopCountPlay := 0\<rparr>" g] by auto
  show ?thesis
  proof (cases "loopCountRec s + 1 < loopLen s")
    case True
    then show ?thesis using assms w
      by (intro exI[of _ x] exI[of _ w] exI[of _ g'] exI[of _ 1])
         (simp add: TrigXnoise_loopseg_def Let_def)
  next
    case False
    then show ?thesis using assms w
      by (intro exI[of _ x] exI[of _ w] exI[of _ "stl g'"] exI[of _ "int (shd g') mod 4 + 1"])
         (simp add: TrigXnoise_loopseg_def Let_def rand_def)
  qed
qed

lemma loopseg_play:
  assumes "loopChoice s \<noteq> 0"
  shows "\<exists>g' ln.
     TrigXnoise_loopseg (s, g) =
       (loop_buffer s ! nat (loopCountPlay s),
        s\<lparr>loopCountRec := 0, walkerValue := loop_buffer s ! nat (loopCountPlay s),
          loopCountPlay := (if loopCountPlay s + 1 < loopLen s then loopCountPlay s + 1 else 0),
          loopTime := (if loopCountPlay s + 1 < loopLen s then loopTime s else loopTime s + 1),
          loopChoice := (if (if loopCountPlay s + 1 < loopLen s then loopTime s else loopTime s + 1) = loopStop s then 0
                         else if loopCountPlay s + 1 < loopLen s then 1 else loopChoice s),
          loopLen := (if (if loopCountPlay s + 1 < loopLen s then loopTime s else loopTime s + 1) = loopStop s then ln
                         else loopLen s)\<rparr>, g') \<and>
     3 \<le> ln \<and> ln \<le> 12"
proof (cases "(if loopCountPlay s + 1 < loopLen s then loopTime s else loopTime s + 1) = loopStop s")
  case True
  then show ?thesis using assms
    by (intro exI[of _ "stl g"] exI[of _ "int (shd g) mod 10 + 3"])
       (auto simp add: TrigXnoise_loopseg_def Let_def rand_def)
next
  case False
  then show ?thesis using assms
    by (intro exI[of _ "g"] exI[of _ "3"])
       (auto simp add: TrigXnoise_loopseg_def Let_def rand_def)
qed


lemma TrigXnoise_loopseg_run_Suc:
  "TrigXnoise_loopseg sg = (v, sg1) \<Longrightarrow> TrigXnoise_loopseg_run n sg1 = (vs, sg2) \<Longrightarrow>
   TrigXnoise_loopseg_run (Suc n) sg = (v # vs, sg2)"
  by simp

lemma loopseg_rec_run:
  assumes "TrigXnoise_loopseg_run k (s, g) = (vs, s', g')"
    and "loopChoice s = 0" and "0 \<le> loopCountRec s"
    and "loopCountRec s + int k \<le> loopLen s" and "nat (loopLen s) \<le> length (loop_buffer s)"
  shows "length vs = k \<and> loopLen s' = loopLen s \<and> loopCountRec s' = loopCountRec s + int k \<and>
         length (loop_buffer s') = length (loop_buffer s) \<and>
         (\<forall>j<k. loop_buffer s' ! (nat (loopCountRec s) + j) = vs ! j) \<and>
         (\<forall>j<nat (loopCountRec s). loop_buffer s' ! j = loop_buffer s ! j) \<and>
         (loopCountRec s + int k < loopLen s \<longrightarrow> loopChoice s' = 0) \<and>
         (0 < k \<and> loopCountRec s + int k = loopLen s \<longrightarrow>
            loopChoice s' = 1 \<and> 1 \<le> loopStop s' \<and> loopStop s' \<le> 4 \<and> loopCountPlay s' = 0 \<and> loopTime s' = 0)"
  using assms
proof (induction k arbitrary: s g vs)
  case 0
  then show ?case by auto
next
  case (Suc k)
  obtain x v g1 st where step: "TrigXnoise_loopseg (s, g) =
       (v, s\<lparr>loopTime := 0, loopCountPlay := 0, xx2 := x, walkerValue := v,
              loop_buffer := (loop_buffer s)[nat (loopCountRec s) := v],
              loopCountRec := loopCountRec s + 1,
              loopChoice := (if loopCountRec s + 1 < loopLen s then 0 else 1),
              loopStop := (if loopCountRec s + 1 < loopLen s then loopStop s else st)\<rparr>, g1)"
    and st: "1 \<le> st" "st \<le> 4"
    using loopseg_rec[OF Suc.prems(2), of g] by blast
  let ?s1 = "s\<lparr>loopTime := 0, loopCountPlay := 0, xx2 := x, walkerValue := v,
              loop_buffer := (loop_buffer s)[nat (loopCountRec s) := v],
              loopCountRec := loopCountRec s + 1,
              loopChoice := (if loopCountRec s + 1 < loopLen s then 0 else 1),
              loopStop := (if loopCountRec s + 1 < loopLen s then loopStop s else st)\<rparr>"
  obtain ws where run: "TrigXnoise_loopseg_run k (?s1, g1) = (ws, s', g')" and vs: "vs = v # ws"
    using Suc.prems(1) step by (auto simp: Let_def split: prod.splits)
  have idx: "nat (loopCountRec s) < length (loop_buffer s)"
    using Suc.prems by linarith
  show ?case
  proof (cases k)
    case 0
    then have "ws = []" "s' = ?s1" using run by auto
    then show ?thesis using vs 0 Suc.prems st idx by auto
  next
    case (Suc k')
    then have lt: "loopCountRec s + 1 < loopLen s" using Suc.prems by linarith
    have IH: "length ws = k \<and> loopLen s' = loopLen ?s1 \<and>
         loopCountRec s' = loopCountRec ?s1 + int k \<and>
         length (loop_buffer s') = length (loop_buffer ?s1) \<and>
         (\<forall>j<k. loop_buffer s' ! (nat (loopCountRec ?s1) + j) = ws ! j) \<and>
         (\<forall>j<nat (loopCountRec ?s1). loop_buffer s' ! j = loop_buffer ?s1 ! j) \<and>
         (loopCountRec ?s1 + int k < loopLen ?s1 \<longrightarrow> loopChoice s' = 0) \<and>
         (0 < k \<and> loopCountRec ?s1 + int k = loopLen ?s1 \<longrightarrow>
            loopChoice s' = 1 \<and> 1 \<le> loopStop s' \<and> loopStop s' \<le> 4 \<and> loopCountPlay s' = 0 \<and> loopTime s' = 0)"
      using Suc.prems lt by (intro Suc.IH[OF run]) auto
    have c1: "nat (loopCountRec s + 1) = Suc (nat (loopCountRec s))"
      using Suc.prems by linarith
    have head: "loop_buffer s' ! nat (loopCountRec s) = v"
      using IH idx c1 by simp
    have tl: "\<forall>j<k. loop_buffer s' ! (Suc (nat (loopCountRec s)) + j) = ws ! j"
      using IH c1 by simp
    have nth: "\<forall>j<Suc k. loop_buffer s' ! (nat (loopCountRec s) + j) = vs ! j"
    proof (intro allI impI)
      fix j assume "j < Suc k"
      then show "loop_buffer s' ! (nat (loopCountRec s) + j) = vs ! j"
        using head tl vs by (cases j) auto
    qed
    have low: "\<forall>j<nat (loopCountRec s). loop_buffer s' ! j = loop_buffer s ! j"
      using IH c1 by simp
    show ?thesis using IH vs nth low Suc by (auto simp: add.assoc)
  qed
qed


lemma loopseg_position:
  fixes L p t S :: int
  assumes "0 \<le> p" "p < L" "0 \<le> t" "t < S"
  shows "(if p + 1 < L then t else t + 1) * L + (if p + 1 < L then p + 1 else 0) = t * L + p + 1"
    and "((if p + 1 < L then t else t + 1) = S) = (t * L + p + 1 = S * L)"
    and "t * L + p + 1 \<le> S * L"
proof -
  have L: "0 < L" using assms by linarith
  have le: "(t + 1) * L \<le> S * L" using assms L by (intro mult_right_mono) auto
  show "(if p + 1 < L then t else t + 1) * L + (if p + 1 < L then p + 1 else 0) = t * L + p + 1"
    using assms by (auto simp: algebra_simps)
  show "t * L + p + 1 \<le> S * L"
    using le assms by (simp add: algebra_simps)
  show "((if p + 1 < L then t else t + 1) = S) = (t * L + p + 1 = S * L)"
  proof (cases "p + 1 < L")
    case True
    then have "t * L + p + 1 < (t + 1) * L" by (simp add: algebra_simps)
    then show ?thesis using True le assms by auto
  next
    case False
    then have "p + 1 = L" using assms by linarith
    then have "t * L + p + 1 = (t + 1) * L" by (simp add: algebra_simps)
    then show ?thesis using False L by auto
  qed
qed

lemma loopseg_play_run:
  assumes "TrigXnoise_loopseg_run k (s, g) = (vs, s', g')"
    and "loopChoice s \<noteq> 0"
    and "0 \<le> loopCountPlay s" and "loopCountPlay s < loopLen s"
    and "0 \<le> loopTime s" and "loopTime s < loopStop s"
    and "loopTime s * loopLen s + loopCountPlay s + int k \<le> loopStop s * loopLen s"
  shows "length vs = k \<and> loop_buffer s' = loop_buffer s \<and>
         (\<forall>j<k. vs ! j = loop_buffer s ! ((nat (loopCountPlay s) + j) mod nat (loopLen s))) \<and>
         (loopTime s * loopLen s + loopCountPlay s + int k < loopStop s * loopLen s \<longrightarrow>
            loopChoice s' \<noteq> 0 \<and> loopLen s' = loopLen s \<and> loopStop s' = loopStop s) \<and>
         (0 < k \<and> loopTime s * loopLen s + loopCountPlay s + int k = loopStop s * loopLen s \<longrightarrow>
            loopChoice s' = 0 \<and> loopCountRec s' = 0 \<and> 3 \<le> loopLen s' \<and> loopLen s' \<le> 12)"
  using assms
proof (induction k arbitrary: s g vs)
  case 0
  then show ?case by auto
next
  case (Suc k)
  let ?p = "loopCountPlay s" and ?t = "loopTime s" and ?L = "loopLen s" and ?S = "loopStop s"
  let ?p1 = "if ?p + 1 < ?L then ?p + 1 else 0"
  let ?t1 = "if ?p + 1 < ?L then ?t else ?t + 1"
  obtain g1 ln where step: "TrigXnoise_loopseg (s, g) =
       (loop_buffer s ! nat ?p,
        s\<lparr>loopCountRec := 0, walkerValue := loop_buffer s ! nat ?p,
          loopCountPlay := ?p1, loopTime := ?t1,
          loopChoice := (if ?t1 = ?S then 0 else if ?p + 1 < ?L then 1 else loopChoice s),
          loopLen := (if ?t1 = ?S then ln else ?L)\<rparr>, g1)"
    and ln: "3 \<le> ln" "ln \<le> 12"
    using loopseg_play[OF Suc.prems(2), of g] by blast
  let ?s1 = "s\<lparr>loopCountRec := 0, walkerValue := loop_buffer s ! nat ?p,
          loopCountPlay := ?p1, loopTime := ?t1,
          loopChoice := (if ?t1 = ?S then 0 else if ?p + 1 < ?L then 1 else loopChoice s),
          loopLen := (if ?t1 = ?S then ln else ?L)\<rparr>"
  obtain ws where run: "TrigXnoise_loopseg_run k (?s1, g1) = (ws, s', g')"
    and vs: "vs = loop_buffer s ! nat ?p # ws"
    using Suc.prems(1) step by (auto simp: Let_def split: prod.splits)
  note pos = loopseg_position[OF Suc.prems(3) Suc.prems(4) Suc.prems(5) Suc.prems(6)]
  show ?case
  proof (cases k)
    case 0
    then have e: "ws = []" "s' = ?s1" using run by auto
    have "vs ! 0 = loop_buffer s ! ((nat ?p + 0) mod nat ?L)"
      using vs Suc.prems by (simp add: nat_less_iff)
    then show ?thesis using e vs 0 ln pos Suc.prems(2) by (auto simp: add.assoc)
  next
    case (Suc k')
    then have more: "?t * ?L + ?p + 1 < ?S * ?L" using Suc.prems(7) by linarith
    then have nS: "?t1 \<noteq> ?S" using pos(2) by simp
    have p1: "0 \<le> ?p1" "?p1 < ?L" using Suc.prems by auto
    have t1: "0 \<le> ?t1" "?t1 < ?S"
    proof -
      show "0 \<le> ?t1" using Suc.prems by auto
      have "?t1 \<le> ?S" using Suc.prems by auto
      then show "?t1 < ?S" using nS by linarith
    qed
    have m1: "loopTime ?s1 * loopLen ?s1 + loopCountPlay ?s1 = ?t * ?L + ?p + 1"
      using pos(1) nS by simp
    have IH: "length ws = k \<and> loop_buffer s' = loop_buffer ?s1 \<and>
         (\<forall>j<k. ws ! j = loop_buffer ?s1 ! ((nat (loopCountPlay ?s1) + j) mod nat (loopLen ?s1))) \<and>
         (loopTime ?s1 * loopLen ?s1 + loopCountPlay ?s1 + int k < loopStop ?s1 * loopLen ?s1 \<longrightarrow>
            loopChoice s' \<noteq> 0 \<and> loopLen s' = loopLen ?s1 \<and> loopStop s' = loopStop ?s1) \<and>
         (0 < k \<and> loopTime ?s1 * loopLen ?s1 + loopCountPlay ?s1 + int k = loopStop ?s1 * loopLen ?s1 \<longrightarrow>
            loopChoice s' = 0 \<and> loopCountRec s' = 0 \<and> 3 \<le> loopLen s' \<and> loopLen s' \<le> 12)"
    proof (intro Suc.IH[OF run])
      show "loopChoice ?s1 \<noteq> 0" using nS Suc.prems(2) by simp
      show "0 \<le> loopCountPlay ?s1" using p1 by simp
      show "loopCountPlay ?s1 < loopLen ?s1" using p1 nS by simp
      show "0 \<le> loopTime ?s1" using t1 by simp
      show "loopTime ?s1 < loopStop ?s1" using t1 by simp
      show "loopTime ?s1 * loopLen ?s1 + loopCountPlay ?s1 + int k \<le> loopStop ?s1 * loopLen ?s1"
        unfolding m1 using Suc.prems(7) nS by simp
    qed
    have len1: "loopLen ?s1 = ?L" "loopStop ?s1 = ?S" "loop_buffer ?s1 = loop_buffer s"
      using nS by simp_all
    have idx: "\<And>j. (nat ?p1 + j) mod nat ?L = (nat ?p + Suc j) mod nat ?L"
    proof -
      fix j
      show "(nat ?p1 + j) mod nat ?L = (nat ?p + Suc j) mod nat ?L"
      proof (cases "?p + 1 < ?L")
        case True
        then have "nat ?p1 = Suc (nat ?p)" using Suc.prems by simp
        then show ?thesis by simp
      next
        case False
        then have "nat ?p + 1 = nat ?L" using Suc.prems by linarith
        then have "nat ?p + Suc j = nat ?L + j" by simp
        then have "(nat ?p + Suc j) mod nat ?L = (nat ?L + j) mod nat ?L" by (rule arg_cong)
        also have "\<dots> = j mod nat ?L" by simp
        finally show ?thesis using False by simp
      qed
    qed
    have nth: "\<forall>j<Suc k. vs ! j = loop_buffer s ! ((nat ?p + j) mod nat ?L)"
    proof (intro allI impI)
      fix j assume j: "j < Suc k"
      show "vs ! j = loop_buffer s ! ((nat ?p + j) mod nat ?L)"
      proof (cases j)
        case 0
        then show ?thesis using vs Suc.prems by (simp add: nat_less_iff)
      next
        case (Suc j')
        then have "vs ! j = ws ! j'" using vs by simp
        also have "\<dots> = loop_buffer s ! ((nat ?p1 + j') mod nat ?L)"
          using IH j Suc nS by simp
        finally show ?thesis using idx[of j'] Suc by simp
      qed
    qed
    have eq: "loopTime ?s1 * ?L + loopCountPlay ?s1 + int k = ?t * ?L + ?p + int (Suc k)"
      using m1 len1 by simp
    have A: "length ws = k" "loop_buffer s' = loop_buffer s"
      using IH len1 by simp_all
    note IH4 = IH[THEN conjunct2, THEN conjunct2, THEN conjunct2, THEN conjunct1, unfolded len1 eq]
    note IH5 = IH[THEN conjunct2, THEN conjunct2, THEN conjunct2, THEN conjunct2, unfolded len1 eq]
    have B: "?t * ?L + ?p + int (Suc k) < ?S * ?L \<longrightarrow>
               loopChoice s' \<noteq> 0 \<and> loopLen s' = ?L \<and> loopStop s' = ?S"
      using IH4 .
    have C: "?t * ?L + ?p + int (Suc k) = ?S * ?L \<longrightarrow>
               loopChoice s' = 0 \<and> loopCountRec s' = 0 \<and> 3 \<le> loopLen s' \<and> loopLen s' \<le> 12"
      using IH5 Suc by simp
    have "length vs = Suc k" using A vs by simp
    then show ?thesis using A B C nth by blast
  qed
qed


lemma nth_concat_replicate:
  "j < n * length xs \<Longrightarrow> concat (replicate n xs) ! j = xs ! (j mod length xs)"
proof (induction n arbitrary: j)
  case 0
  then show ?case by simp
next
  case (Suc n)
  show ?case
  proof (cases "j < length xs")
    case True
    then show ?thesis by (simp add: nth_append)
  next
    case False
    then have "j - length xs < n * length xs" using Suc.prems by simp
    then have "concat (replicate n xs) ! (j - length xs) = xs ! ((j - length xs) mod length xs)"
      by (rule Suc.IH)
    then show ?thesis using False by (simp add: nth_append le_mod_geq)
  qed
qed

lemma TrigXnoise_new_start: "TrigXnoise_loopseg_start (fst (TrigXnoise_new n rate g0))"
  by (simp add: TrigXnoise_new_def TrigXnoise_loopseg_start_def rand_def)

lemma loopseg_cycle:
  assumes start: "TrigXnoise_loopseg_start s"
    and rec: "TrigXnoise_loopseg_run (nat (loopLen s)) (s, g) = (rec, s1, g1)"
    and play: "TrigXnoise_loopseg_run (nat (loopLen s) * nat (loopStop s1)) (s1, g1) = (play, s2, g2)"
  shows "length rec = nat (loopLen s) \<and> loopChoice s1 = 1 \<and>
         1 \<le> loopStop s1 \<and> loopStop s1 \<le> 4 \<and>
         play = concat (replicate (nat (loopStop s1)) rec) \<and>
         TrigXnoise_loopseg_start s2 \<and>
         (\<forall>k<nat (loopLen s). loopChoice (fst (snd (TrigXnoise_loopseg_run k (s, g)))) = 0) \<and>
         (\<forall>k<nat (loopLen s) * nat (loopStop s1).
            loopChoice (fst (snd (TrigXnoise_loopseg_run k (s1, g1)))) \<noteq> 0)"
proof -
  let ?L = "loopLen s"
  have s: "loopChoice s = 0" "loopCountRec s = 0" "3 \<le> ?L" "?L \<le> 12" "length (loop_buffer s) = 15"
    using start by (simp_all add: TrigXnoise_loopseg_start_def)
  have R: "length rec = nat ?L \<and> loopLen s1 = ?L \<and> loopCountRec s1 = loopCountRec s + int (nat ?L) \<and>
         length (loop_buffer s1) = length (loop_buffer s) \<and>
         (\<forall>j<nat ?L. loop_buffer s1 ! (nat (loopCountRec s) + j) = rec ! j) \<and>
         (\<forall>j<nat (loopCountRec s). loop_buffer s1 ! j = loop_buffer s ! j) \<and>
         (loopCountRec s + int (nat ?L) < ?L \<longrightarrow> loopChoice s1 = 0) \<and>
         (0 < nat ?L \<and> loopCountRec s + int (nat ?L) = ?L \<longrightarrow>
            loopChoice s1 = 1 \<and> 1 \<le> loopStop s1 \<and> loopStop s1 \<le> 4 \<and>
            loopCountPlay s1 = 0 \<and> loopTime s1 = 0)"
    using s by (intro loopseg_rec_run[OF rec]) auto
  have s1: "length rec = nat ?L" "loopLen s1 = ?L" "length (loop_buffer s1) = 15"
    "loopChoice s1 = 1" "1 \<le> loopStop s1" "loopStop s1 \<le> 4" "loopCountPlay s1 = 0" "loopTime s1 = 0"
    using R s by auto
  have buf: "\<forall>j<nat ?L. loop_buffer s1 ! j = rec ! j" using R s by simp
  let ?S = "loopStop s1"
  have LS: "int (nat ?L * nat ?S) = ?S * ?L" using s s1 by simp
  have P: "length play = nat ?L * nat ?S \<and> loop_buffer s2 = loop_buffer s1 \<and>
         (\<forall>j<nat ?L * nat ?S. play ! j = loop_buffer s1 ! ((nat (loopCountPlay s1) + j) mod nat (loopLen s1))) \<and>
         (loopTime s1 * loopLen s1 + loopCountPlay s1 + int (nat ?L * nat ?S) < loopStop s1 * loopLen s1 \<longrightarrow>
            loopChoice s2 \<noteq> 0 \<and> loopLen s2 = loopLen s1 \<and> loopStop s2 = loopStop s1) \<and>
         (0 < nat ?L * nat ?S \<and> loopTime s1 * loopLen s1 + loopCountPlay s1 + int (nat ?L * nat ?S) = loopStop s1 * loopLen s1 \<longrightarrow>
            loopChoice s2 = 0 \<and> loopCountRec s2 = 0 \<and> 3 \<le> loopLen s2 \<and> loopLen s2 \<le> 12)"
    using s s1 LS by (intro loopseg_play_run[OF play]) auto
  have pos: "0 < nat ?L * nat ?S" using s s1 by simp
  have s2: "TrigXnoise_loopseg_start s2"
    using P s1 pos LS by (simp add: TrigXnoise_loopseg_start_def)
  have "play = concat (replicate (nat ?S) rec)"
  proof (rule nth_equalityI)
    show "length play = length (concat (replicate (nat ?S) rec))"
      using P s1 by (simp add: length_concat sum_list_replicate mult.commute)
  next
    fix j assume "j < length play"
    then have j: "j < nat ?L * nat ?S" using P by simp
    then have m: "j mod nat ?L < nat ?L" using s by simp
    have "play ! j = loop_buffer s1 ! (j mod nat ?L)" using P j s1 by simp
    also have "\<dots> = rec ! (j mod nat ?L)" using buf m by simp
    also have "\<dots> = concat (replicate (nat ?S) rec) ! j"
      using nth_concat_replicate[of j "nat ?S" rec] j s1 by (simp add: mult.commute)
    finally show "play ! j = concat (replicate (nat ?S) rec) ! j" .
  qed
  moreover have "\<forall>k<nat ?L. loopChoice (fst (snd (TrigXnoise_loopseg_run k (s, g)))) = 0"
  proof (intro allI impI)
    fix k assume k: "k < nat ?L"
    obtain vs s' g' where e: "TrigXnoise_loopseg_run k (s, g) = (vs, s', g')"
      by (cases "TrigXnoise_loopseg_run k (s, g)") auto
    have "loopCountRec s + int k < loopLen s \<longrightarrow> loopChoice s' = 0"
      using loopseg_rec_run[OF e] s k by auto
    then show "loopChoice (fst (snd (TrigXnoise_loopseg_run k (s, g)))) = 0"
      using e s k by auto
  qed
  moreover have "\<forall>k<nat ?L * nat ?S. loopChoice (fst (snd (TrigXnoise_loopseg_run k (s1, g1)))) \<noteq> 0"
  proof (intro allI impI)
    fix k assume k: "k < nat ?L * nat ?S"
    obtain vs s' g' where e: "TrigXnoise_loopseg_run k (s1, g1) = (vs, s', g')"
      by (cases "TrigXnoise_loopseg_run k (s1, g1)") auto
    have ik: "int k < ?S * ?L" using k LS by linarith
    have "loopTime s1 * loopLen s1 + loopCountPlay s1 + int k < loopStop s1 * loopLen s1 \<longrightarrow>
            loopChoice s' \<noteq> 0 \<and> loopLen s' = loopLen s1 \<and> loopStop s' = loopStop s1"
      using loopseg_play_run[OF e] s s1 ik by auto
    then show "loopChoice (fst (snd (TrigXnoise_loopseg_run k (s1, g1)))) \<noteq> 0"
      using e s1 ik by auto
  qed
  ultimately show ?thesis using s1 s2 by blast
qed

lemma TrigXnoise_loopseg_run_numeral:
  "TrigXnoise_loopseg_run (numeral k) sg =
     (let (v, sg) = TrigXnoise_loopseg sg;
          (vs, sg) = TrigXnoise_loopseg_run (pred_numeral k) sg
      in (v # vs, sg))"
  by (simp add: numeral_eq_Suc)

text \<open>
  C5 as stated fails on the length of the recording phase: when \<^verbatim>\<open>rand()\<close> returns a
  multiple of 10 the length \<^verbatim>\<open>(rand() % 10) + 3\<close> is 3, below 8.
\<close>

theorem TrigXnoise_loopLen_can_be_3:
  "loopLen (fst (TrigXnoise_new 1 44100 (sconst 0))) = 3 \<and>
   \<not> 8 \<le> loopLen (fst (TrigXnoise_new 1 44100 (sconst 0)))"
  by (simp add: TrigXnoise_new_def rand_def)

text \<open>
  C5, amended. A new object is at the start of a recording phase, with a loop length
  \<^verbatim>\<open>loopLen\<close> between 3 and 12. From the start of a recording phase, the next
  \<^verbatim>\<open>loopLen\<close> calls record (the recording branch stays selected until the last of
  them); then a number of repetitions \<^verbatim>\<open>loopStop\<close> between 1 and 4 is drawn and the
  next \<^verbatim>\<open>loopLen * loopStop\<close> calls play back (the playback branch stays selected
  until the last of them): the values they return are the recorded values, in recording
  order, \<^verbatim>\<open>loopStop\<close> times over. After that the object is at the start of a recording
  phase again, with a new length between 3 and 12.
\<close>

theorem TrigXnoise_loopseg_record_then_replay:
  "TrigXnoise_loopseg_start (fst (TrigXnoise_new n rate g0)) \<and>
   (TrigXnoise_loopseg_start s \<longrightarrow>
     (case TrigXnoise_loopseg_run (nat (loopLen s)) (s, g) of (rec, s1, g1) \<Rightarrow>
      case TrigXnoise_loopseg_run (nat (loopLen s) * nat (loopStop s1)) (s1, g1) of
        (play, s2, g2) \<Rightarrow>
          length rec = nat (loopLen s) \<and> loopChoice s1 = 1 \<and>
          1 \<le> loopStop s1 \<and> loopStop s1 \<le> 4 \<and>
          play = concat (replicate (nat (loopStop s1)) rec) \<and>
          TrigXnoise_loopseg_start s2 \<and>
          (\<forall>k<nat (loopLen s).
             loopChoice (fst (snd (TrigXnoise_loopseg_run k (s, g)))) = 0) \<and>
          (\<forall>k<nat (loopLen s) * nat (loopStop s1).
             loopChoice (fst (snd (TrigXnoise_loopseg_run k (s1, g1)))) \<noteq> 0)))"
proof (intro conjI impI)
  show "TrigXnoise_loopseg_start (fst (TrigXnoise_new n rate g0))"
    by (rule TrigXnoise_new_start)
next
  assume start: "TrigXnoise_loopseg_start s"
  obtain rec s1 g1 where r: "TrigXnoise_loopseg_run (nat (loopLen s)) (s, g) = (rec, s1, g1)"
    by (cases "TrigXnoise_loopseg_run (nat (loopLen s)) (s, g)") auto
  obtain play s2 g2 where
    p: "TrigXnoise_loopseg_run (nat (loopLen s) * nat (loopStop s1)) (s1, g1) = (play, s2, g2)"
    by (cases "TrigXnoise_loopseg_run (nat (loopLen s) * nat (loopStop s1)) (s1, g1)") auto
  show "case TrigXnoise_loopseg_run (nat (loopLen s)) (s, g) of (rec, s1, g1) \<Rightarrow>
      case TrigXnoise_loopseg_run (nat (loopLen s) * nat (loopStop s1)) (s1, g1) of
        (play, s2, g2) \<Rightarrow>
          length rec = nat (loopLen s) \<and> loopChoice s1 = 1 \<and>
          1 \<le> loopStop s1 \<and> loopStop s1 \<le> 4 \<and>
          play = concat (replicate (nat (loopStop s1)) rec) \<and>
          TrigXnoise_loopseg_start s2 \<and>
          (\<forall>k<nat (loopLen s).
             loopChoice (fst (snd (TrigXnoise_loopseg_run k (s, g)))) = 0) \<and>
          (\<forall>k<nat (loopLen s) * nat (loopStop s1).
             loopChoice (fst (snd (TrigXnoise_loopseg_run k (s1, g1)))) \<noteq> 0)"
    unfolding r prod.case p using loopseg_cycle[OF start r p] .
qed

theorem TrigXnoise_loopseg_record_then_replay_witness:
  "TrigXnoise_loopseg_start (fst (TrigXnoise_new 1 44100 rand_example)) \<and>
   loopLen (fst (TrigXnoise_new 1 44100 rand_example)) = 3 \<and>
   (case TrigXnoise_loopseg_run 3 (TrigXnoise_new 1 44100 rand_example) of (rec, s1, g1) \<Rightarrow>
      rec = [0.45, 0.43, 0.33] \<and> loopStop s1 = 2 \<and>
      (case TrigXnoise_loopseg_run 6 (s1, g1) of (play, s2, g2) \<Rightarrow>
         play = [0.45, 0.43, 0.33, 0.45, 0.43, 0.33] \<and> play = concat (replicate 2 rec) \<and>
         TrigXnoise_loopseg_start s2 \<and> loopLen s2 = 10))"
  using TrigXnoise_loopseg_record_then_replay
    [of 1 44100 rand_example "fst (TrigXnoise_new 1 44100 rand_example)"
        "snd (TrigXnoise_new 1 44100 rand_example)"]
  by (simp add: TrigXnoise_loopseg_run_numeral TrigXnoise_loopseg_def TrigXnoise_walk_def
      TrigXnoise_new_def TrigXnoise_loopseg_start_def Let_def rand_def c_int_def
      rand_example_def)


section \<open>TrigChoice: a malformed choice list\<close>

lemma for_loop_choice:
  "i \<le> n \<Longrightarrow> length (choice s) = n \<Longrightarrow> n = length xs \<Longrightarrow>
   for_loop i n (\<lambda>i s. s\<lparr>choice := (choice s)[i := PyFloat_AS_DOUBLE (PyNumber_Float (PyFloat (xs ! i)))]\<rparr>) s
   = s\<lparr>choice := take i (choice s) @ drop i xs\<rparr>"
proof (induction "n - i" arbitrary: i s)
  case 0
  then show ?case by (simp add: for_loop.simps)
next
  case (Suc k)
  let ?body = "\<lambda>i s. s\<lparr>choice := (choice s)[i := PyFloat_AS_DOUBLE (PyNumber_Float (PyFloat (xs ! i)))]\<rparr>"
  let ?s1 = "s\<lparr>choice := (choice s)[i := xs ! i]\<rparr>"
  have lt: "i < n" using Suc.hyps(2) by simp
  have t: "take (Suc i) ((choice s)[i := xs ! i]) = take i (choice s) @ [xs ! i]"
    using lt Suc.prems by (simp add: take_Suc_conv_app_nth)
  have d: "xs ! i # drop (Suc i) xs = drop i xs"
    using lt Suc.prems by (simp add: Cons_nth_drop_Suc)
  have "for_loop i n ?body s = for_loop (Suc i) n ?body ?s1"
    using lt by (subst for_loop.simps) simp
  also have "\<dots> = ?s1\<lparr>choice := take (Suc i) (choice ?s1) @ drop (Suc i) xs\<rparr>"
    using Suc.hyps(2) lt Suc.prems by (intro Suc.hyps(1)) simp_all
  also have "\<dots> = s\<lparr>choice := take i (choice s) @ drop i xs\<rparr>"
    using t d by simp
  finally show ?case .
qed


lemma setChoice_list:
  "TrigChoice_setChoice (PyList xs) s =
     (None, TrigChoice_setProcMode (s\<lparr>chSize := int (length xs), choice := xs\<rparr>))"
  using for_loop_choice[of 0 "length xs" "s\<lparr>chSize := int (length xs), choice := take (length xs) (choice s) @ replicate (length xs - length (choice s)) 0\<rparr>" xs]
  by (simp add: TrigChoice_setChoice_def Let_def)

text \<open>
  C8. \<^verbatim>\<open>TrigChoice_setChoice\<close> with an argument that is not a list sets a
  \<^verbatim>\<open>TypeError\<close> and returns with the object as it was, every field included. With a
  list it stores the list and its length. So the choice table changes only when the
  argument is a list.
\<close>

theorem TrigChoice_setChoice_atomic:
  "(\<not> PyList_Check arg \<longrightarrow>
      TrigChoice_setChoice arg s = (Some (TypeError ''The choice attribute must be a list.''), s)) \<and>
   choice (snd (TrigChoice_setChoice (PyList xs) s)) = xs \<and>
   chSize (snd (TrigChoice_setChoice (PyList xs) s)) = int (length xs) \<and>
   fst (TrigChoice_setChoice (PyList xs) s) = None \<and>
   (choice (snd (TrigChoice_setChoice arg s)) \<noteq> choice s \<or>
    chSize (snd (TrigChoice_setChoice arg s)) \<noteq> chSize s \<longrightarrow> PyList_Check arg)"
proof (intro conjI impI)
  assume "\<not> PyList_Check arg"
  then show "TrigChoice_setChoice arg s =
      (Some (TypeError ''The choice attribute must be a list.''), s)"
    by (simp add: TrigChoice_setChoice_def)
next
  show "choice (snd (TrigChoice_setChoice (PyList xs) s)) = xs"
    by (simp add: setChoice_list TrigChoice_setProcMode_def Let_def)
next
  show "chSize (snd (TrigChoice_setChoice (PyList xs) s)) = int (length xs)"
    by (simp add: setChoice_list TrigChoice_setProcMode_def Let_def)
next
  show "fst (TrigChoice_setChoice (PyList xs) s) = None"
    by (simp add: setChoice_list)
next
  assume a: "choice (snd (TrigChoice_setChoice arg s)) \<noteq> choice s \<or>
    chSize (snd (TrigChoice_setChoice arg s)) \<noteq> chSize s"
  show "PyList_Check arg"
  proof (rule ccontr)
    assume "\<not> PyList_Check arg"
    then have "TrigChoice_setChoice arg s =
      (Some (TypeError ''The choice attribute must be a list.''), s)"
      by (simp add: TrigChoice_setChoice_def)
    then show False using a by simp
  qed
qed

theorem TrigChoice_setChoice_atomic_witness:
  "\<not> PyList_Check (PyFloat 5) \<and>
   TrigChoice_setChoice (PyFloat 5) TrigChoice_ex =
     (Some (TypeError ''The choice attribute must be a list.''), TrigChoice_ex) \<and>
   choice (snd (TrigChoice_setChoice (PyList [7, 8]) TrigChoice_ex)) = [7, 8] \<and>
   chSize (snd (TrigChoice_setChoice (PyList [7, 8]) TrigChoice_ex)) = 2 \<and>
   choice (snd (TrigChoice_setChoice (PyList [7, 8]) TrigChoice_ex)) \<noteq> choice TrigChoice_ex \<and>
   PyList_Check (PyList [7, 8])"
  using TrigChoice_setChoice_atomic[of "PyFloat 5" TrigChoice_ex "[7, 8]"]
    TrigChoice_setChoice_atomic[of "PyList [7, 8]" TrigChoice_ex "[7, 8]"]
  by (simp add: TrigChoice_ex_def)


section \<open>TrigRand: switching a parameter between a number and a stream\<close>

lemma setProcMode_frame:
  "TrigRand_setProcMode s = s\<lparr>proc_func_ptr := proc_func_ptr (TrigRand_setProcMode s),
                              muladd_func_ptr := muladd_func_ptr (TrigRand_setProcMode s)\<rparr>"
  by (simp add: TrigRand_setProcMode_def Let_def)

lemma setProcMode_proc:
  "proc_func_ptr (TrigRand_setProcMode s) =
    (let procmode = port.modebuffer s ! 2 + port.modebuffer s ! 3 * 10 in
     if procmode = 0 then Some Generate_ii else if procmode = 1 then Some Generate_ai
     else if procmode = 10 then Some Generate_ia else if procmode = 11 then Some Generate_aa
     else proc_func_ptr s)"
  "muladd_func_ptr (TrigRand_setProcMode s) =
     muladd_switch (port.modebuffer s ! 0 + port.modebuffer s ! 1 * 10) (muladd_func_ptr s)"
  "port.modebuffer (TrigRand_setProcMode s) = port.modebuffer s"
  by (simp_all add: TrigRand_setProcMode_def Let_def)

lemma setMin_number:
  "TrigRand_setMin (Some (PyFloat a)) s =
     Inr (TrigRand_setProcMode (s\<lparr>TrigRand.min_v := PyFloat a,
            port.modebuffer := (port.modebuffer s)[2 := 0]\<rparr>))"
  by (simp add: TrigRand_setMin_def Let_def)

lemma setMin_stream:
  "TrigRand_setMin (Some (PyoObject h)) s =
     Inr (TrigRand_setProcMode (s\<lparr>TrigRand.min_v := PyoObject h, min_stream := Some h,
            port.modebuffer := (port.modebuffer s)[2 := 1]\<rparr>))"
  by (simp add: TrigRand_setMin_def Let_def)


lemma setMax_number:
  "TrigRand_setMax (Some (PyFloat a)) s =
     Inr (TrigRand_setProcMode (s\<lparr>TrigRand.max_v := PyFloat a,
            port.modebuffer := (port.modebuffer s)[3 := 0]\<rparr>))"
  by (simp add: TrigRand_setMax_def Let_def)

lemma setMax_stream:
  "TrigRand_setMax (Some (PyoObject h)) s =
     Inr (TrigRand_setProcMode (s\<lparr>TrigRand.max_v := PyoObject h, max_stream := Some h,
            port.modebuffer := (port.modebuffer s)[3 := 1]\<rparr>))"
  by (simp add: TrigRand_setMax_def Let_def)

lemma mode_only_setProcMode:
  "TrigRand_mode_only s t \<Longrightarrow> TrigRand_mode_only s (TrigRand_setProcMode t)"
  by (simp add: TrigRand_mode_only_def TrigRand_setProcMode_def Let_def)

lemma mode_only_upd:
  "TrigRand_mode_only s t \<Longrightarrow>
   TrigRand_mode_only s (t\<lparr>TrigRand.min_v := m, port.modebuffer := mb\<rparr>)"
  "TrigRand_mode_only s t \<Longrightarrow>
   TrigRand_mode_only s (t\<lparr>TrigRand.min_v := m, min_stream := ms, port.modebuffer := mb\<rparr>)"
  "TrigRand_mode_only s t \<Longrightarrow>
   TrigRand_mode_only s (t\<lparr>TrigRand.max_v := m, port.modebuffer := mb\<rparr>)"
  "TrigRand_mode_only s t \<Longrightarrow>
   TrigRand_mode_only s (t\<lparr>TrigRand.max_v := m, max_stream := ms, port.modebuffer := mb\<rparr>)"
  by (simp_all add: TrigRand_mode_only_def)

lemma mode_only_refl: "TrigRand_mode_only s s"
  by (simp add: TrigRand_mode_only_def)

lemma setMin_round_trip:
  assumes "length (port.modebuffer s) = 4"
    and "port.modebuffer s ! 3 = 0 \<or> port.modebuffer s ! 3 = 1"
  shows "\<exists>s1 s2 s3.
     TrigRand_setMin (Some (PyFloat a)) s = Inr s1 \<and>
     TrigRand_setMin (Some (PyoObject h)) s1 = Inr s2 \<and>
     TrigRand_setMin (Some (PyFloat c)) s2 = Inr s3 \<and>
     port.modebuffer s1 ! 2 = 0 \<and>
     proc_func_ptr s1 = (if port.modebuffer s ! 3 = 0 then Some Generate_ii else Some Generate_ia) \<and>
     port.modebuffer s2 ! 2 = 1 \<and>
     proc_func_ptr s2 = (if port.modebuffer s ! 3 = 0 then Some Generate_ai else Some Generate_aa) \<and>
     port.modebuffer s3 = port.modebuffer s1 \<and> proc_func_ptr s3 = proc_func_ptr s1 \<and>
     muladd_func_ptr s3 = muladd_func_ptr s1 \<and>
     TrigRand_mode_only s s1 \<and> TrigRand_mode_only s s2 \<and> TrigRand_mode_only s s3"
proof -
  let ?s1 = "TrigRand_setProcMode (s\<lparr>TrigRand.min_v := PyFloat a,
            port.modebuffer := (port.modebuffer s)[2 := 0]\<rparr>)"
  let ?s2 = "TrigRand_setProcMode (?s1\<lparr>TrigRand.min_v := PyoObject h, min_stream := Some h,
            port.modebuffer := (port.modebuffer ?s1)[2 := 1]\<rparr>)"
  let ?s3 = "TrigRand_setProcMode (?s2\<lparr>TrigRand.min_v := PyFloat c,
            port.modebuffer := (port.modebuffer ?s2)[2 := 0]\<rparr>)"
  have m1: "port.modebuffer ?s1 = (port.modebuffer s)[2 := 0]"
    by (simp add: setProcMode_proc)
  have m2: "port.modebuffer ?s2 = (port.modebuffer s)[2 := 1]"
    by (simp add: setProcMode_proc)
  have m3: "port.modebuffer ?s3 = (port.modebuffer s)[2 := 0]"
    by (simp add: setProcMode_proc)
  have p1: "proc_func_ptr ?s1 = (if port.modebuffer s ! 3 = 0 then Some Generate_ii else Some Generate_ia)"
    using assms by (auto simp: setProcMode_proc Let_def)
  have p2: "proc_func_ptr ?s2 = (if port.modebuffer s ! 3 = 0 then Some Generate_ai else Some Generate_aa)"
    using assms by (auto simp: setProcMode_proc Let_def)
  have p3: "proc_func_ptr ?s3 = (if port.modebuffer s ! 3 = 0 then Some Generate_ii else Some Generate_ia)"
    using assms by (auto simp: setProcMode_proc Let_def)
  have q: "muladd_func_ptr ?s3 = muladd_func_ptr ?s1"
    by (simp add: setProcMode_proc muladd_switch_def)
  have o1: "TrigRand_mode_only s ?s1"
    by (intro mode_only_setProcMode mode_only_upd mode_only_refl)
  have o2: "TrigRand_mode_only s ?s2"
    by (intro mode_only_setProcMode mode_only_upd o1)
  have o3: "TrigRand_mode_only s ?s3"
    by (intro mode_only_setProcMode mode_only_upd o2)
  show ?thesis
    apply (rule exI[of _ ?s1], rule exI[of _ ?s2], rule exI[of _ ?s3])
    using assms m1 m2 m3 p1 p2 p3 q o1 o2 o3
    by (simp add: setMin_number setMin_stream)
qed

lemma setMax_round_trip:
  assumes "length (port.modebuffer s) = 4"
    and "port.modebuffer s ! 2 = 0 \<or> port.modebuffer s ! 2 = 1"
  shows "\<exists>s1 s2 s3.
     TrigRand_setMax (Some (PyFloat a)) s = Inr s1 \<and>
     TrigRand_setMax (Some (PyoObject h)) s1 = Inr s2 \<and>
     TrigRand_setMax (Some (PyFloat c)) s2 = Inr s3 \<and>
     port.modebuffer s1 ! 3 = 0 \<and>
     proc_func_ptr s1 = (if port.modebuffer s ! 2 = 0 then Some Generate_ii else Some Generate_ai) \<and>
     port.modebuffer s2 ! 3 = 1 \<and>
     proc_func_ptr s2 = (if port.modebuffer s ! 2 = 0 then Some Generate_ia else Some Generate_aa) \<and>
     port.modebuffer s3 = port.modebuffer s1 \<and> proc_func_ptr s3 = proc_func_ptr s1 \<and>
     muladd_func_ptr s3 = muladd_func_ptr s1 \<and>
     TrigRand_mode_only s s1 \<and> TrigRand_mode_only s s2 \<and> TrigRand_mode_only s s3"
proof -
  let ?s1 = "TrigRand_setProcMode (s\<lparr>TrigRand.max_v := PyFloat a,
            port.modebuffer := (port.modebuffer s)[3 := 0]\<rparr>)"
  let ?s2 = "TrigRand_setProcMode (?s1\<lparr>TrigRand.max_v := PyoObject h, max_stream := Some h,
            port.modebuffer := (port.modebuffer ?s1)[3 := 1]\<rparr>)"
  let ?s3 = "TrigRand_setProcMode (?s2\<lparr>TrigRand.max_v := PyFloat c,
            port.modebuffer := (port.modebuffer ?s2)[3 := 0]\<rparr>)"
  have m1: "port.modebuffer ?s1 = (port.modebuffer s)[3 := 0]"
    by (simp add: setProcMode_proc)
  have m2: "port.modebuffer ?s2 = (port.modebuffer s)[3 := 1]"
    by (simp add: setProcMode_proc)
  have m3: "port.modebuffer ?s3 = (port.modebuffer s)[3 := 0]"
    by (simp add: setProcMode_proc)
  have p1: "proc_func_ptr ?s1 = (if port.modebuffer s ! 2 = 0 then Some Generate_ii else Some Generate_ai)"
    using assms by (auto simp: setProcMode_proc Let_def)
  have p2: "proc_func_ptr ?s2 = (if port.modebuffer s ! 2 = 0 then Some Generate_ia else Some Generate_aa)"
    using assms by (auto simp: setProcMode_proc Let_def)
  have p3: "proc_func_ptr ?s3 = (if port.modebuffer s ! 2 = 0 then Some Generate_ii else Some Generate_ai)"
    using assms by (auto simp: setProcMode_proc Let_def)
  have q: "muladd_func_ptr ?s3 = muladd_func_ptr ?s1"
    by (simp add: setProcMode_proc muladd_switch_def)
  have o1: "TrigRand_mode_only s ?s1"
    by (intro mode_only_setProcMode mode_only_upd mode_only_refl)
  have o2: "TrigRand_mode_only s ?s2"
    by (intro mode_only_setProcMode mode_only_upd o1)
  have o3: "TrigRand_mode_only s ?s3"
    by (intro mode_only_setProcMode mode_only_upd o2)
  show ?thesis
    apply (rule exI[of _ ?s1], rule exI[of _ ?s2], rule exI[of _ ?s3])
    using assms m1 m2 m3 p1 p2 p3 q o1 o2 o3
    by (simp add: setMax_number setMax_stream)
qed

text \<open>
  C7. With four mode flags of which the one of the other parameter is 0 or 1:
  \<^verbatim>\<open>TrigRand_setMin\<close> with a number sets \<^verbatim>\<open>modebuffer[2]\<close> to 0 and selects a
  variant that reads a constant minimum (\<open>ii\<close> or \<open>ia\<close>); with an audio object it
  sets the flag to 1 and selects a variant that reads the stream (\<open>ai\<close> or \<open>aa\<close>);
  number, then object, then number again returns three times without a fault, and ends
  with the mode flags and the two function pointers of the first call. Each of the three
  objects differs from the initial one in the parameter, its stream, the mode flags and
  the function pointers only: the output buffer and the ramp are not touched. The same
  holds for \<^verbatim>\<open>TrigRand_setMax\<close> and \<^verbatim>\<open>modebuffer[3]\<close>, with the variants \<open>ii\<close> or
  \<open>ai\<close> for a number and \<open>ia\<close> or \<open>aa\<close> for an object.
\<close>

theorem TrigRand_setMin_setMax_round_trip:
  "(length (port.modebuffer s) = 4 \<and>
    (port.modebuffer s ! 3 = 0 \<or> port.modebuffer s ! 3 = 1) \<longrightarrow>
   (\<exists>s1 s2 s3.
     TrigRand_setMin (Some (PyFloat a)) s = Inr s1 \<and>
     TrigRand_setMin (Some (PyoObject h)) s1 = Inr s2 \<and>
     TrigRand_setMin (Some (PyFloat c)) s2 = Inr s3 \<and>
     port.modebuffer s1 ! 2 = 0 \<and>
     proc_func_ptr s1 =
       (if port.modebuffer s ! 3 = 0 then Some Generate_ii else Some Generate_ia) \<and>
     port.modebuffer s2 ! 2 = 1 \<and>
     proc_func_ptr s2 =
       (if port.modebuffer s ! 3 = 0 then Some Generate_ai else Some Generate_aa) \<and>
     port.modebuffer s3 = port.modebuffer s1 \<and> proc_func_ptr s3 = proc_func_ptr s1 \<and>
     muladd_func_ptr s3 = muladd_func_ptr s1 \<and>
     TrigRand_mode_only s s1 \<and> TrigRand_mode_only s s2 \<and> TrigRand_mode_only s s3)) \<and>
   (length (port.modebuffer t) = 4 \<and>
    (port.modebuffer t ! 2 = 0 \<or> port.modebuffer t ! 2 = 1) \<longrightarrow>
   (\<exists>s1 s2 s3.
     TrigRand_setMax (Some (PyFloat a)) t = Inr s1 \<and>
     TrigRand_setMax (Some (PyoObject h)) s1 = Inr s2 \<and>
     TrigRand_setMax (Some (PyFloat c)) s2 = Inr s3 \<and>
     port.modebuffer s1 ! 3 = 0 \<and>
     proc_func_ptr s1 =
       (if port.modebuffer t ! 2 = 0 then Some Generate_ii else Some Generate_ai) \<and>
     port.modebuffer s2 ! 3 = 1 \<and>
     proc_func_ptr s2 =
       (if port.modebuffer t ! 2 = 0 then Some Generate_ia else Some Generate_aa) \<and>
     port.modebuffer s3 = port.modebuffer s1 \<and> proc_func_ptr s3 = proc_func_ptr s1 \<and>
     muladd_func_ptr s3 = muladd_func_ptr s1 \<and>
     TrigRand_mode_only t s1 \<and> TrigRand_mode_only t s2 \<and> TrigRand_mode_only t s3))"
  using setMin_round_trip[of s a h c] setMax_round_trip[of t a h c] by blast

theorem TrigRand_setMin_setMax_round_trip_witness:
  "length (port.modebuffer (TrigRand_ex False 64 0.01)) = 4 \<and>
   port.modebuffer (TrigRand_ex False 64 0.01) ! 3 = 0 \<and>
   port.modebuffer (TrigRand_ex False 64 0.01) ! 2 = 0 \<and>
   (\<exists>s1 s2 s3.
     TrigRand_setMin (Some (PyFloat 0.2)) (TrigRand_ex False 64 0.01) = Inr s1 \<and>
     TrigRand_setMin (Some (PyoObject 7)) s1 = Inr s2 \<and>
     TrigRand_setMin (Some (PyFloat 0.3)) s2 = Inr s3 \<and>
     proc_func_ptr s1 = Some Generate_ii \<and> proc_func_ptr s2 = Some Generate_ai \<and>
     proc_func_ptr s3 = Some Generate_ii \<and>
     TrigRand_mode_only (TrigRand_ex False 64 0.01) s3) \<and>
   (\<exists>s1 s2 s3.
     TrigRand_setMax (Some (PyFloat 0.2)) (TrigRand_ex False 64 0.01) = Inr s1 \<and>
     TrigRand_setMax (Some (PyoObject 7)) s1 = Inr s2 \<and>
     TrigRand_setMax (Some (PyFloat 0.3)) s2 = Inr s3 \<and>
     proc_func_ptr s1 = Some Generate_ii \<and> proc_func_ptr s2 = Some Generate_ia \<and>
     proc_func_ptr s3 = Some Generate_ii \<and>
     TrigRand_mode_only (TrigRand_ex False 64 0.01) s3)"
proof -
  let ?s = "TrigRand_ex False 64 0.01"
  have h: "length (port.modebuffer ?s) = 4" "port.modebuffer ?s ! 3 = 0"
    "port.modebuffer ?s ! 2 = 0"
    by (simp_all add: TrigRand_ex_def TrigRand_setPort_def Let_def)
  note r = TrigRand_setMin_setMax_round_trip[of ?s "0.2" 7 "0.3" ?s]
  from r h obtain s1 s2 s3 where
    "TrigRand_setMin (Some (PyFloat 0.2)) ?s = Inr s1"
    "TrigRand_setMin (Some (PyoObject 7)) s1 = Inr s2"
    "TrigRand_setMin (Some (PyFloat 0.3)) s2 = Inr s3"
    "proc_func_ptr s1 = Some Generate_ii" "proc_func_ptr s2 = Some Generate_ai"
    "proc_func_ptr s3 = Some Generate_ii" "TrigRand_mode_only ?s s3"
    by auto
  moreover from r h obtain t1 t2 t3 where
    "TrigRand_setMax (Some (PyFloat 0.2)) ?s = Inr t1"
    "TrigRand_setMax (Some (PyoObject 7)) t1 = Inr t2"
    "TrigRand_setMax (Some (PyFloat 0.3)) t2 = Inr t3"
    "proc_func_ptr t1 = Some Generate_ii" "proc_func_ptr t2 = Some Generate_ia"
    "proc_func_ptr t3 = Some Generate_ii" "TrigRand_mode_only ?s t3"
    by auto
  ultimately show ?thesis using h by blast
qed


section \<open>Runs over successive blocks\<close>


lemma for_loop_e_total:
  "for_loop_e i n (\<lambda>j s. Inr (b j s)) s = Inr (for_loop i n b s)"
proof (induction "n - i" arbitrary: i s)
  case 0
  then show ?case by (simp add: for_loop_e.simps for_loop.simps)
next
  case (Suc k)
  then have "for_loop_e (Suc i) n (\<lambda>j s. Inr (b j s)) (b i s) = Inr (for_loop (Suc i) n b (b i s))"
    by (intro Suc.hyps(1)) simp
  then show ?case using Suc.hyps(2)
    by (simp add: for_loop_e.simps[of i] for_loop.simps[of i])
qed






section \<open>TrigRand, TrigChoice and TrigXnoise: the glide to a new target\<close>

lemma port_sample_frame [simp]:
  "time (port_sample t v i s) = time s"
  "timeStep (port_sample t v i s) = timeStep s"
  "sr (port_sample t v i s) = sr s"
  "bufsize (port_sample t v i s) = bufsize s"
  "length (data (port_sample t v i s)) = length (data s)"
  by (simp_all add: port_sample_def port_trig_def port_ramp_def Let_def)













































section \<open>TrigXnoise: the Poisson table\<close>

lemma powf_e_30:
  "0 < powf 2.7182818 (- 30)" "powf 2.7182818 (- 30) \<le> (2 / 5) ^ 30"
proof -
  show "0 < powf 2.7182818 (- 30)" by (simp add: powf_def)
  have "(2.7182818 :: real) powr (- 30) \<le> (5 / 2) powr (- 30)"
    by (rule powr_mono2') simp_all
  also have "(5 / 2 :: real) powr (- 30) = inverse ((5 / 2) powr 30)"
    by (rule powr_minus)
  also have "(5 / 2 :: real) powr 30 = (5 / 2) ^ 30"
    by (rule powr_numeral) simp
  also have "inverse ((5 / 2 :: real) ^ 30) = (2 / 5) ^ 30"
    by (simp add: power_divide)
  finally show "powf 2.7182818 (- 30) \<le> (2 / 5) ^ 30" by (simp add: powf_def)
qed

lemma c_int_small: "0 \<le> x \<Longrightarrow> x < 1 \<Longrightarrow> c_int x = 0"
  by (simp add: c_int_def floor_eq_iff)

lemma poisson_tot_30:
  assumes "1 \<le> i" and "i \<le> 11"
  shows "c_int (1000 * (powf 2.7182818 (- 30) * powf 30 (real i) / real_of_int (fact i))) = 0"
proof (rule c_int_small)
  let ?K = "powf 2.7182818 (- 30)"
  have p: "powf 30 (real i) = 30 ^ i" by (simp add: powf_def powr_realpow)
  show "0 \<le> 1000 * (?K * powf 30 (real i) / real_of_int (fact i))"
    using powf_e_30(1) by (simp add: p)
  have i: "i = 1 \<or> i = 2 \<or> i = 3 \<or> i = 4 \<or> i = 5 \<or> i = 6 \<or> i = 7 \<or> i = 8 \<or> i = 9 \<or>
    i = 10 \<or> i = 11"
    using assms by arith
  have b: "1000 * ((2 / 5) ^ 30 * 30 ^ i / real_of_int (fact i)) < (1 :: real)"
    using i by (elim disjE) (simp_all add: fact_numeral power_divide)
  have "?K * (30 ^ i / real_of_int (fact i)) \<le> (2 / 5) ^ 30 * (30 ^ i / real_of_int (fact i))"
    using powf_e_30(2) by (intro mult_right_mono) simp_all
  then have "1000 * (?K * powf 30 (real i) / real_of_int (fact i)) \<le>
        1000 * ((2 / 5) ^ 30 * 30 ^ i / real_of_int (fact i))"
    by (simp add: p)
  then show "1000 * (?K * powf 30 (real i) / real_of_int (fact i)) < 1"
    using b by linarith
qed


lemma poisson_term_30:
  assumes "xx1 s = 30" and "1 \<le> i" and "i \<le> 11"
  shows "TrigXnoise_poisson_term i (s, int (fact (i - 1))) = Inr (s, int (fact i))"
proof -
  have f: "int (fact (i - 1)) * int i = int (fact i)"
    using assms(2) by (cases i) (simp_all add: algebra_simps)
  have "c_int (1000 * (powf 2.7182818 (- xx1 s) * powf (xx1 s) (real i) /
                       real_of_int (int (fact i)))) = 0"
    using poisson_tot_30[OF assms(2) assms(3)] assms(1) by simp
  then show ?thesis
    unfolding TrigXnoise_poisson_term_def Let_def prod.case f
    by (simp add: for_loop_e.simps[of 0 0])
qed

lemma poisson_terms_30:
  assumes "xx1 s = 30" and "1 \<le> i" and "i \<le> 12"
  shows "for_loop_e i 12 TrigXnoise_poisson_term (s, int (fact (i - 1))) =
           Inr (s, int (fact 11))"
  using assms(2,3)
proof (induction "12 - i" arbitrary: i)
  case 0
  then have "i = 12" by simp
  then show ?case by (simp add: for_loop_e.simps[of 12 12])
next
  case (Suc k)
  then have i: "1 \<le> i" "i \<le> 11" "i < 12" by simp_all
  have "for_loop_e (Suc i) 12 TrigXnoise_poisson_term (s, int (fact (Suc i - 1))) =
          Inr (s, int (fact 11))"
    using Suc.hyps(2) i by (intro Suc.hyps(1)) simp_all
  then show ?case
    using i poisson_term_30[OF assms(1) i(1) i(2)]
    by (subst for_loop_e.simps) simp
qed

lemma poisson_rebuild_30:
  assumes "xx1 s = 30"
  shows "TrigXnoise_poisson_rebuild s = Inr (s\<lparr>lastPoissonX1 := 30, poisson_tab := 0\<rparr>)"
  using poisson_terms_30[of "s\<lparr>lastPoissonX1 := 30, poisson_tab := 0\<rparr>" 1] assms
  by (simp add: TrigXnoise_poisson_rebuild_def Let_def)

lemma poisson_30:
  assumes "xx1 s = 30" and "lastPoissonX1 s \<noteq> 30"
  shows "TrigXnoise_poisson (s, g) = Inl DivisionByZero"
proof (cases "xx2 s < 0.1")
  case True
  then show ?thesis
    using assms poisson_rebuild_30[of "s\<lparr>xx2 := 0.1\<rparr>"]
    by (simp add: TrigXnoise_poisson_def Let_def rand_def)
next
  case False
  then show ?thesis
    using assms poisson_rebuild_30[of s]
    by (simp add: TrigXnoise_poisson_def Let_def rand_def)
qed

text \<open>
  C6. A new object whose \<^verbatim>\<open>x1\<close> is set to 30, with the Poisson type function, on a
  block whose only sample is a trigger. The first draw rebuilds the table, since
  \<^verbatim>\<open>lastPoissonX1\<close> is -99; each of the eleven counts
  \<^verbatim>\<open>(long)(1000 * powf(2.7182818, -30) * powf(30, i) / factorial)\<close> is 0, so the table
  stays empty and \<^verbatim>\<open>poisson_tab\<close> is 0 when \<^verbatim>\<open>rand() % self->poisson_tab\<close> is
  evaluated.
\<close>

theorem TrigXnoise_poisson_empty_table:
  "TrigXnoise_generate_ii TrigXnoise_poisson [1] (TrigXnoise_x1 30) = Inl DivisionByZero"
proof -
  obtain s g where sg: "TrigXnoise_x1 30 = (s, g)" by (cases "TrigXnoise_x1 30")
  have s: "TrigXnoise.x1 s = PyFloat 30" "lastPoissonX1 s = - 99" "bufsize s = 1"
    using sg
    by (auto simp: TrigXnoise_x1_def TrigXnoise_setX1_number_def TrigXnoise_new_def Let_def
        rand_def)
  let ?s = "s\<lparr>xx1 := 30, xx2 := PyFloat_AS_DOUBLE (TrigXnoise.x2 s)\<rparr>"
  have "TrigXnoise_poisson (?s, g) = Inl DivisionByZero"
    using s by (intro poisson_30) simp_all
  then show ?thesis
    using s unfolding sg
    by (simp add: TrigXnoise_generate_ii_def TrigXnoise_generate_ii_body_def Let_def
        for_loop_e.simps[of 0])
qed


section \<open>TrigEnv: the reads of the table\<close>

text \<open>
  C10. A trigger on the first sample of a block of 10 samples, a table of size N = 4 and
  a duration of 8 samples: \<^verbatim>\<open>inc\<close> is 0.5 and \<^verbatim>\<open>pointerPos\<close> is 3 on the seventh
  sample, where \<^verbatim>\<open>tablelist[ipart+1]\<close> is \<^verbatim>\<open>tablelist[4]\<close>, outside of a buffer of
  4 samples. With one more sample allocated after the table, \<^verbatim>\<open>pointerPos\<close> reaches
  4 after the eighth sample; the test \<^verbatim>\<open>self->pointerPos > size\<close> is false there, the
  reader stays active, and the ninth sample reads \<^verbatim>\<open>tablelist[4]\<close> and
  \<^verbatim>\<open>tablelist[5]\<close>.
\<close>

theorem TrigEnv_readframes_i_reads_past_table:
  "TrigEnv_readframes_i [1, 0, 0, 0, 0, 0, 0, 0, 0, 0] (TrigEnv_ex [0, 1, 2, 3])
     = Inl (OutOfBounds 4)
   \<and> TrigEnv_readframes_i [1, 0, 0, 0, 0, 0, 0, 0, 0, 0] (TrigEnv_ex [0, 1, 2, 3, 0])
     = Inl (OutOfBounds 5)"
  by (simp add: TrigEnv_readframes_i_def TrigEnv_readframes_body_def TrigEnv_ex_def
      for_loop_e.simps Let_def c_int_def)

end
